theory Spec2Isabelle
  imports Complex_Main "HOL-Library.AList"
begin

section \<open>Values, exceptions and the objects of the external libraries\<close>

text \<open>
  The module \<^verbatim>\<open>AFQ/definitions/mapping.py\<close> is an adapter over nibabel, numpy, dipy,
  fslpy, h5py and the rest of pyAFQ. Python values that the module only passes along
  (keyword dictionaries, attribute values) are \<open>pyval\<close>; a keyword dictionary is an
  association list, because a Python \<^verbatim>\<open>dict\<close> keeps insertion order and an assignment
  to an existing key keeps its position (\<open>AList.update\<close> does the same). Floats are
  abstracted to \<open>real\<close>.
\<close>

type_synonym path = string
type_synonym matrix = "real list list"

datatype pyval = PNone | PBool bool | PInt int | PStr string | PDict "(string \<times> pyval) list"

type_synonym kwargs = "(string \<times> pyval) list"

text \<open>
  Exceptions. \<open>ValueError_shape their our\<close> is the \<^verbatim>\<open>ValueError\<close> that
  \<^verbatim>\<open>ItkMap.get_for_row\<close> raises itself; its f-string message interpolates the two shapes.
  \<open>External\<close> is an exception that propagates out of a call into a library
  (numpy, h5py, fslpy, dipy, the rest of pyAFQ).
\<close>

datatype py_error =
    ImportError string
  | KeyError string
  | AttributeError string
  | TypeError string
  | NotImplementedError string
  | ValueError_shape "int list" "nat list"
  | External string

record ndarray =
  shape :: "nat list"
  flat :: "real list"

text \<open>A nibabel image: \<^verbatim>\<open>img.get_fdata()\<close> is \<open>fdata\<close>, \<^verbatim>\<open>img.affine\<close> is \<open>affine\<close>.\<close>

record nifti =
  fdata :: ndarray
  affine :: matrix

datatype fsl_image = Image nifti

datatype warp = DeformationField ndarray

text \<open>
  An object of a mapping class that is defined outside this module (dipy's
  \<^verbatim>\<open>DiffeomorphicMap\<close>, for one): the method names its class defines, its displacement
  data and the attribute \<^verbatim>\<open>codomain_world2grid\<close> that \<^verbatim>\<open>SynMap.gen_mapping\<close> assigns.
\<close>

record dmap =
  dm_methods :: "string list"
  dm_field :: ndarray
  codomain_world2grid :: matrix

record ConformedFnirtMapping =
  ref_affine :: matrix
  warp :: warp

text \<open>\<^verbatim>\<open>ConformedAffineMapping(AffineMap)\<close>: the state is the affine matrix of dipy's \<^verbatim>\<open>AffineMap\<close>.\<close>

record ConformedAffineMapping =
  affine_matrix :: matrix

datatype mapping =
    FnirtMapping ConformedFnirtMapping
  | AffineMapping ConformedAffineMapping
  | ExternalMapping dmap

text \<open>What a file holds, as far as this module reads or writes it.\<close>

datatype content =
    NpyFile matrix
  | JsonFile kwargs
  | MappingFile mapping
  | NiftiFile nifti
  | H5File "(string list \<times> real list) list"

type_synonym filesystem = "path \<rightharpoonup> content"

type_synonym h5file = "string list \<rightharpoonup> real list"

type_synonym sls = "real list list"

type_synonym bids_layout = "path list"

text \<open>
  A row of the subject/session table. The keys the module reads are fields; the
  dictionary \<^verbatim>\<open>row['timing']\<close>, which the module mutates in place, lives in the state below.
\<close>

record row =
  ses :: string
  subject :: string
  dwi_file :: path

record afq_object =
  reg_template_img :: nifti
  reg_template :: string
  reg_subject :: string

datatype disp_arg = DispImage nifti | DispFile path

text \<open>
  The collaborators that are not part of this module, as parameters; the sources of none
  of them are at hand. \<open>find_file\<close> is \<^verbatim>\<open>AFQ.definitions.utils.find_file\<close> (its extension
  argument is optional), \<open>Image_load\<close>, \<open>readFnirt\<close> and \<open>applyDeformation\<close> are fslpy's
  (\<open>applyDeformation\<close> stands for the call and the \<^verbatim>\<open>.data\<close> of its result),
  \<open>h5py_File\<close> opens an HDF5 file, \<open>read_mapping\<close> and \<open>slr_registration\<close> are
  \<^verbatim>\<open>AFQ.registration\<close>'s, \<open>syn_registration\<close>, \<open>affine_registration\<close> and the
  \<^verbatim>\<open>AffineMap\<close> methods are dipy's, \<open>get_fname\<close> and \<open>reg_img\<close> are the methods
  \<^verbatim>\<open>_get_fname\<close> and \<^verbatim>\<open>_reg_img\<close> of the AFQ object, \<open>linalg_inv\<close> is
  \<^verbatim>\<open>np.linalg.inv\<close>, \<open>astype_float32\<close> rounds to single precision and \<open>clock\<close> gives the
  successive readings of \<^verbatim>\<open>time()\<close>. Whatever can raise returns a sum, with the
  message of the exception on the left.
\<close>

record externals =
  find_file :: "bids_layout \<Rightarrow> path \<Rightarrow> kwargs \<Rightarrow> string \<Rightarrow> string \<Rightarrow> string \<Rightarrow> string option
                  \<Rightarrow> string + path"
  Image_load :: "filesystem \<Rightarrow> path \<Rightarrow> string + fsl_image"
  readFnirt :: "filesystem \<Rightarrow> path \<Rightarrow> fsl_image \<Rightarrow> fsl_image \<Rightarrow> string + warp"
  applyDeformation :: "fsl_image \<Rightarrow> warp \<Rightarrow> string + ndarray"
  astype_float32 :: "real \<Rightarrow> real"
  h5py_File :: "filesystem \<Rightarrow> path \<Rightarrow> string + h5file"
  read_mapping :: "filesystem \<Rightarrow> disp_arg \<Rightarrow> path \<Rightarrow> nifti \<Rightarrow> matrix option
                     \<Rightarrow> string + mapping"
  slr_registration :: "sls \<Rightarrow> sls \<Rightarrow> matrix \<Rightarrow> nat list \<Rightarrow> matrix \<Rightarrow> nat list \<Rightarrow> kwargs
                         \<Rightarrow> string + mapping"
  syn_registration :: "ndarray \<Rightarrow> ndarray \<Rightarrow> matrix \<Rightarrow> matrix \<Rightarrow> matrix option \<Rightarrow> kwargs
                         \<Rightarrow> string + (ndarray \<times> dmap)"
  affine_registration :: "nifti \<Rightarrow> nifti \<Rightarrow> kwargs \<Rightarrow> string + (ndarray \<times> matrix)"
  AffineMap_transform :: "ConformedAffineMapping \<Rightarrow> ndarray list \<Rightarrow> kwargs \<Rightarrow> string + ndarray"
  AffineMap_transform_inverse ::
    "ConformedAffineMapping \<Rightarrow> ndarray list \<Rightarrow> kwargs \<Rightarrow> string + ndarray"
  AffineMap_methods :: "string list"
  get_fname :: "afq_object \<Rightarrow> row \<Rightarrow> string \<Rightarrow> path"
  reg_img :: "afq_object \<Rightarrow> string \<Rightarrow> bool \<Rightarrow> row \<Rightarrow> string + (nifti \<times> sls)"
  linalg_inv :: "matrix \<Rightarrow> string + matrix"
  clock :: "nat \<Rightarrow> real"

text \<open>An exception that a collaborator raises reaches this module as \<open>External\<close>.\<close>

definition call :: "string + 'a \<Rightarrow> py_error + 'a" where
  "call r = (case r of Inl msg \<Rightarrow> Inl (External msg) | Inr x \<Rightarrow> Inr x)"

section \<open>Optional dependencies\<close>

text \<open>
  The module sets \<^verbatim>\<open>has_fslpy\<close> and \<^verbatim>\<open>has_h5py\<close> when it is imported: each \<^verbatim>\<open>try\<close> block
  runs its imports in order and the first \<^verbatim>\<open>ModuleNotFoundError\<close> gives \<^verbatim>\<open>False\<close>.
  The environment is the list of installed distributions; a module is found when the
  distribution that ships it is installed (fslpy ships the package \<^verbatim>\<open>fsl\<close>).
\<close>

type_synonym environment = "string list"

definition provider :: "string \<Rightarrow> string" where
  "provider m = (if take 4 m = ''fsl.'' \<or> m = ''fsl'' then ''fslpy'' else m)"

definition module_found :: "environment \<Rightarrow> string \<Rightarrow> bool" where
  "module_found env m = (provider m \<in> set env)"

definition has_fslpy :: "environment \<Rightarrow> bool" where
  "has_fslpy env =
     (if \<not> module_found env ''fsl.data.image'' then False
      else if \<not> module_found env ''fsl.transform.fnirt'' then False
      else if \<not> module_found env ''fsl.transform.nonlinear'' then False
      else True)"

definition has_h5py :: "environment \<Rightarrow> bool" where
  "has_h5py env = (if \<not> module_found env ''h5py'' then False else True)"

section \<open>FnirtMap and ConformedFnirtMapping\<close>

record FnirtMap =
  warp_suffix :: string
  space_suffix :: string
  warp_filters :: kwargs
  space_filters :: kwargs
  fnames :: "string \<rightharpoonup> (string \<rightharpoonup> path \<times> path)"

definition FnirtMap_init ::
  "environment \<Rightarrow> string \<Rightarrow> string \<Rightarrow> kwargs \<Rightarrow> kwargs \<Rightarrow> py_error + FnirtMap" where
  "FnirtMap_init env w_suffix s_suffix w_filters s_filters =
     (if \<not> has_fslpy env
      then Inl (ImportError ''Please install fslpy if you want to use FnirtMap'')
      else Inr \<lparr>warp_suffix = w_suffix, space_suffix = s_suffix, warp_filters = w_filters,
                space_filters = s_filters,
                fnames = Map.empty\<rparr>)"

text \<open>
  \<^verbatim>\<open>find_path\<close> mutates \<^verbatim>\<open>self.fnames\<close>; the model returns the object with the outcome.
  The empty dictionary for a new session is stored before \<^verbatim>\<open>find_file\<close> is called, so it
  stays when \<^verbatim>\<open>find_file\<close> raises.
\<close>

definition FnirtMap_find_path ::
  "externals \<Rightarrow> FnirtMap \<Rightarrow> bids_layout \<Rightarrow> path \<Rightarrow> string \<Rightarrow> string
     \<Rightarrow> (py_error + unit) \<times> FnirtMap" where
  "FnirtMap_find_path ext self bids_layout from_path subj session =
     (let self1 = (if fnames self session = None
                   then self\<lparr>fnames := (fnames self)(session \<mapsto> Map.empty)\<rparr> else self)
      in case call (find_file ext bids_layout from_path (warp_filters self1)
                      (warp_suffix self1) session subj None) of
           Inl e \<Rightarrow> (Inl e, self1)
         | Inr nearest_warp \<Rightarrow>
             (case call (find_file ext bids_layout from_path (space_filters self1)
                           (space_suffix self1) session subj None) of
                Inl e \<Rightarrow> (Inl e, self1)
              | Inr nearest_space \<Rightarrow>
                  (Inr (),
                   self1\<lparr>fnames := (fnames self1)(session \<mapsto>
                      (case fnames self1 session of
                         None \<Rightarrow> Map.empty
                       | Some d \<Rightarrow> d)(subj \<mapsto> (nearest_warp, nearest_space)))\<rparr>)))"

text \<open>\<^verbatim>\<open>d[k1][k2]\<close> on a dictionary of dictionaries: \<^verbatim>\<open>KeyError\<close> at the first missing key.\<close>

definition lookup2 :: "(string \<rightharpoonup> (string \<rightharpoonup> 'v)) \<Rightarrow> string \<Rightarrow> string \<Rightarrow> py_error + 'v" where
  "lookup2 d k1 k2 =
     (case d k1 of
        None \<Rightarrow> Inl (KeyError k1)
      | Some d1 \<Rightarrow> (case d1 k2 of None \<Rightarrow> Inl (KeyError k2) | Some v \<Rightarrow> Inr v))"

definition FnirtMap_get_for_row ::
  "externals \<Rightarrow> FnirtMap \<Rightarrow> afq_object \<Rightarrow> row \<Rightarrow> filesystem \<Rightarrow> py_error + mapping" where
  "FnirtMap_get_for_row ext self afq r fs =
     (case lookup2 (fnames self) (ses r) (subject r) of
        Inl e \<Rightarrow> Inl e
      | Inr (nearest_warp, nearest_space) \<Rightarrow>
          (let our_templ = reg_template_img afq in
           case call (Image_load ext fs (dwi_file r)) of
             Inl e \<Rightarrow> Inl e
           | Inr subj \<Rightarrow>
               (case call (Image_load ext fs nearest_space) of
                  Inl e \<Rightarrow> Inl e
                | Inr their_templ \<Rightarrow>
                    (case call (readFnirt ext fs nearest_warp their_templ subj) of
                       Inl e \<Rightarrow> Inl e
                     | Inr w \<Rightarrow>
                         Inr (FnirtMapping \<lparr>ref_affine = affine our_templ, warp = w\<rparr>)))))"

definition ConformedFnirtMapping_transform_inverse ::
  "externals \<Rightarrow> ConformedFnirtMapping \<Rightarrow> ndarray \<Rightarrow> kwargs \<Rightarrow> py_error + ndarray" where
  "ConformedFnirtMapping_transform_inverse ext self data kw =
     (let data_img = Image \<lparr>fdata = data\<lparr>flat := map (astype_float32 ext) (flat data)\<rparr>,
                             affine = ref_affine self\<rparr>
      in case call (applyDeformation ext data_img (warp self)) of
           Inl e \<Rightarrow> Inl e
         | Inr xform_data \<Rightarrow> Inr xform_data)"

definition ConformedFnirtMapping_transform ::
  "ConformedFnirtMapping \<Rightarrow> ndarray \<Rightarrow> kwargs \<Rightarrow> py_error + ndarray" where
  "ConformedFnirtMapping_transform self data kw =
     Inl (NotImplementedError
       (''Fnirt based mappings can currently'' @ '' only transform from template to subject space''))"

section \<open>ItkMap\<close>

record ItkMap =
  itk_warp_suffix :: string
  itk_warp_filters :: kwargs
  itk_fnames :: "string \<rightharpoonup> (string \<rightharpoonup> path)"

definition ItkMap_init :: "environment \<Rightarrow> string \<Rightarrow> kwargs \<Rightarrow> py_error + ItkMap" where
  "ItkMap_init env w_suffix w_filters =
     (if \<not> has_h5py env
      then Inl (ImportError ''Please install h5py if you want to use ItkMap'')
      else Inr \<lparr>itk_warp_suffix = w_suffix, itk_warp_filters = w_filters,
                itk_fnames = Map.empty\<rparr>)"

definition ItkMap_find_path ::
  "externals \<Rightarrow> ItkMap \<Rightarrow> bids_layout \<Rightarrow> path \<Rightarrow> string \<Rightarrow> string
     \<Rightarrow> (py_error + unit) \<times> ItkMap" where
  "ItkMap_find_path ext self bids_layout from_path subj session =
     (let self1 = (if itk_fnames self session = None
                   then self\<lparr>itk_fnames := (itk_fnames self)(session \<mapsto> Map.empty)\<rparr>
                   else self)
      in case call (find_file ext bids_layout from_path (itk_warp_filters self1)
                      (itk_warp_suffix self1) session subj (Some ''h5'')) of
           Inl e \<Rightarrow> (Inl e, self1)
         | Inr found \<Rightarrow>
             (Inr (),
              self1\<lparr>itk_fnames := (itk_fnames self1)(session \<mapsto>
                 (case itk_fnames self1 session of
                    None \<Rightarrow> Map.empty
                  | Some d \<Rightarrow> d)(subj \<mapsto> found))\<rparr>))"

subsection \<open>The numpy operations of \<^verbatim>\<open>ItkMap.get_for_row\<close>\<close>

text \<open>\<^verbatim>\<open>np.asarray(..., dtype=int)\<close> on floats truncates towards zero.\<close>

definition trunc_int :: "real \<Rightarrow> int" where
  "trunc_int x = (if 0 \<le> x then \<lfloor>x\<rfloor> else \<lceil>x\<rceil>)"

definition h5_get :: "h5file \<Rightarrow> string list \<Rightarrow> py_error + real list" where
  "h5_get f ks = (case f ks of None \<Rightarrow> Inl (External ''h5py: KeyError'') | Some v \<Rightarrow> Inr v)"

text \<open>
  \<^verbatim>\<open>our_shape != their_shape\<close> compares a tuple with a one-dimensional integer array:
  numpy compares element by element and broadcasts a side of length one. Two sides that
  do not broadcast make the expression \<^verbatim>\<open>(our_shape != their_shape).any()\<close> fail inside
  numpy (an error in recent versions; older ones return a plain \<^verbatim>\<open>True\<close>, which has no
  \<^verbatim>\<open>any\<close>).
\<close>

definition np_ne :: "nat list \<Rightarrow> int list \<Rightarrow> py_error + bool list" where
  "np_ne a b =
     (if length a = length b then Inr (map2 (\<lambda>x y. int x \<noteq> y) a b)
      else if length a = 1 then Inr (map (\<lambda>y. int (hd a) \<noteq> y) b)
      else if length b = 1 then Inr (map (\<lambda>x. int x \<noteq> hd b) a)
      else Inl (External ''numpy: operands could not be broadcast together''))"

definition np_any :: "bool list \<Rightarrow> bool" where
  "np_any bs = list_ex (\<lambda>b. b) bs"

text \<open>
  \<^verbatim>\<open>a.reshape(dims)\<close> on a flat array: one dimension may be \<open>-1\<close> and is then inferred;
  otherwise the product of the dimensions must be the size.
\<close>

definition np_reshape :: "real list \<Rightarrow> int list \<Rightarrow> py_error + ndarray" where
  "np_reshape xs dims =
     (let n = int (length xs); others = filter (\<lambda>d. d \<noteq> -1) dims in
      if list_ex (\<lambda>d. d < -1) dims \<or> length others + 1 < length dims
      then Inl (External ''numpy: cannot reshape'')
      else if length others < length dims
      then (if prod_list others = 0 \<or> n mod prod_list others \<noteq> 0
            then Inl (External ''numpy: cannot reshape'')
            else Inr \<lparr>shape = map (\<lambda>d. nat (if d = -1 then n div prod_list others else d)) dims,
                      flat = xs\<rparr>)
      else if prod_list dims = n then Inr \<lparr>shape = map nat dims, flat = xs\<rparr>
      else Inl (External ''numpy: cannot reshape''))"

definition np_zeros :: "int list \<Rightarrow> py_error + ndarray" where
  "np_zeros dims =
     (if list_ex (\<lambda>d. d < 0) dims then Inl (External ''numpy: negative dimensions are not allowed'')
      else Inr \<lparr>shape = map nat dims, flat = replicate (nat (prod_list dims)) 0\<rparr>)"

text \<open>
  \<^verbatim>\<open>their_disp[..., 0] = their_forward\<close>: the last axis of \<^verbatim>\<open>their_disp\<close> has length two,
  so in row-major order each value of \<^verbatim>\<open>their_forward\<close> is followed by the untouched zero.
\<close>

definition set_last_axis0 :: "ndarray \<Rightarrow> ndarray \<Rightarrow> ndarray" where
  "set_last_axis0 disp forward = disp\<lparr>flat := concat (map (\<lambda>v. [v, 0]) (flat forward))\<rparr>"

text \<open>
  The 4x4 prealign matrix: the first nine parameters fill the upper left 3x3 block, the
  rest is assigned to the first three rows of the last column (numpy broadcasts a single
  value, and refuses any other length but three), and the corner is one.
\<close>

definition their_prealign_of :: "real list \<Rightarrow> py_error + matrix" where
  "their_prealign_of p =
     (if length (take 9 p) \<noteq> 9 then Inl (External ''numpy: cannot reshape'')
      else let t = drop 9 p in
        if length t \<noteq> 3 \<and> length t \<noteq> 1
        then Inl (External ''numpy: could not broadcast input array'')
        else let c = (if length t = 1 then replicate 3 (hd t) else t) in
          Inr [[p ! 0, p ! 1, p ! 2, c ! 0],
               [p ! 3, p ! 4, p ! 5, c ! 1],
               [p ! 6, p ! 7, p ! 8, c ! 2],
               [0, 0, 0, 1]])"

definition ItkMap_get_for_row ::
  "externals \<Rightarrow> ItkMap \<Rightarrow> afq_object \<Rightarrow> row \<Rightarrow> filesystem \<Rightarrow> py_error + mapping" where
  "ItkMap_get_for_row ext self afq r fs =
     (case lookup2 (itk_fnames self) (ses r) (subject r) of
        Inl e \<Rightarrow> Inl e
      | Inr nearest_warp \<Rightarrow>
     (case call (h5py_File ext fs nearest_warp) of
        Inl e \<Rightarrow> Inl e
      | Inr warp_f5 \<Rightarrow>
     (case h5_get warp_f5 [''TransformGroup'', ''1'', ''TransformFixedParameters''] of
        Inl e \<Rightarrow> Inl e
      | Inr fixed \<Rightarrow>
     (let their_shape = take 3 (map trunc_int fixed);
          our_shape = shape (fdata (reg_template_img afq))
      in case np_ne our_shape their_shape of
        Inl e \<Rightarrow> Inl e
      | Inr neq \<Rightarrow>
          if np_any neq then Inl (ValueError_shape their_shape our_shape)
          else
     (case h5_get warp_f5 [''TransformGroup'', ''1'', ''TransformParameters''] of
        Inl e \<Rightarrow> Inl e
      | Inr params1 \<Rightarrow>
     (case np_reshape params1 (their_shape @ [3]) of
        Inl e \<Rightarrow> Inl e
      | Inr their_forward \<Rightarrow>
     (case np_zeros (their_shape @ [3, 2]) of
        Inl e \<Rightarrow> Inl e
      | Inr zeros \<Rightarrow>
     (let their_disp = \<lparr>fdata = set_last_axis0 zeros their_forward,
                         affine = affine (reg_template_img afq)\<rparr>
      in case h5_get warp_f5 [''TransformGroup'', ''2'', ''TransformParameters''] of
        Inl e \<Rightarrow> Inl e
      | Inr params2 \<Rightarrow>
     (case their_prealign_of params2 of
        Inl e \<Rightarrow> Inl e
      | Inr their_prealign \<Rightarrow>
          call (read_mapping ext fs (DispImage their_disp) (dwi_file r) (reg_template_img afq)
                  (Some their_prealign)))))))))))"

section \<open>The maps that pyAFQ generates: GeneratedMapMixin, SynMap, SlrMap, AffMap\<close>

text \<open>
  \<^verbatim>\<open>GeneratedMapMixin\<close> reads attributes that its subclasses may or may not assign, so an
  object of the three classes is its class and its instance dictionary, and reading an
  attribute that was never assigned is an \<^verbatim>\<open>AttributeError\<close>. (The common base class
  \<^verbatim>\<open>Definition\<close> is not among the sources; none of the three constructors calls its
  \<^verbatim>\<open>__init__\<close>, so it assigns nothing.)
\<close>

datatype gen_class = SynMap | SlrMap | AffMap

record gen_map =
  cls :: gen_class
  attrs :: kwargs

definition SynMap_init :: "bool \<Rightarrow> kwargs \<Rightarrow> kwargs \<Rightarrow> gen_map" where
  "SynMap_init use_prealign affine_kwargs syn_kwargs =
     \<lparr>cls = SynMap,
      attrs = [(''use_prealign'', PBool use_prealign),
               (''affine_kwargs'', PDict affine_kwargs),
               (''syn_kwargs'', PDict syn_kwargs),
               (''extension'', PStr ''.nii.gz'')]\<rparr>"

definition SlrMap_init :: "kwargs \<Rightarrow> gen_map" where
  "SlrMap_init syn_kwargs =
     \<lparr>cls = SlrMap,
      attrs = [(''syn_kwargs'', PDict []),
               (''use_prealign'', PBool False),
               (''extension'', PStr ''.npy'')]\<rparr>"

definition AffMap_init :: "kwargs \<Rightarrow> gen_map" where
  "AffMap_init affine_kwargs =
     \<lparr>cls = AffMap,
      attrs = [(''use_prealign'', PBool False),
               (''affine_kwargs'', PDict affine_kwargs),
               (''extension'', PStr ''.npy'')]\<rparr>"

definition getattr :: "gen_map \<Rightarrow> string \<Rightarrow> py_error + pyval" where
  "getattr self name =
     (case map_of (attrs self) name of
        None \<Rightarrow> Inl (AttributeError name)
      | Some v \<Rightarrow> Inr v)"

text \<open>The truth value of a Python object, a \<^verbatim>\<open>**\<close> argument and a string operand.\<close>

fun truthy :: "pyval \<Rightarrow> bool" where
  "truthy PNone = False"
| "truthy (PBool b) = b"
| "truthy (PInt i) = (i \<noteq> 0)"
| "truthy (PStr s) = (s \<noteq> [])"
| "truthy (PDict d) = (d \<noteq> [])"

fun as_kwargs :: "pyval \<Rightarrow> py_error + kwargs" where
  "as_kwargs (PDict d) = Inr d"
| "as_kwargs v = Inl (TypeError ''argument after ** must be a mapping'')"

fun as_str :: "pyval \<Rightarrow> py_error + string" where
  "as_str (PStr s) = Inr s"
| "as_str v = Inl (TypeError ''can only concatenate str to str'')"

subsection \<open>State: the file system, the calls made, the clock and the row's timing\<close>

text \<open>
  \<open>trace\<close> is a ghost field: it records, in order, the registration routines that were
  called and the files that were written. \<open>gen_mapping\<close> is logged when the method is
  entered.
\<close>

datatype event =
    Call_affine_registration
  | Call_gen_mapping gen_class
  | Call_syn_registration
  | Call_slr_registration
  | Wrote_npy path matrix
  | Wrote_json path kwargs
  | Wrote_mapping path mapping

record state =
  files :: filesystem
  trace :: "event list"
  ticks :: nat
  timing :: "string \<rightharpoonup> real"

type_synonym 'a io = "state \<Rightarrow> (py_error + 'a) \<times> state"

definition return :: "'a \<Rightarrow> 'a io" where
  "return x = (\<lambda>s. (Inr x, s))"

definition raise :: "py_error \<Rightarrow> 'a io" where
  "raise e = (\<lambda>s. (Inl e, s))"

definition bind :: "'a io \<Rightarrow> ('a \<Rightarrow> 'b io) \<Rightarrow> 'b io" where
  "bind m f = (\<lambda>s. case m s of (Inl e, s1) \<Rightarrow> (Inl e, s1) | (Inr x, s1) \<Rightarrow> f x s1)"

definition lift :: "py_error + 'a \<Rightarrow> 'a io" where
  "lift r = (\<lambda>s. (r, s))"

definition emit :: "event \<Rightarrow> unit io" where
  "emit e = (\<lambda>s. (Inr (), s\<lparr>trace := trace s @ [e]\<rparr>))"

definition op_exists :: "path \<Rightarrow> bool io" where
  "op_exists p = (\<lambda>s. (Inr (files s p \<noteq> None), s))"

definition time :: "externals \<Rightarrow> real io" where
  "time ext = (\<lambda>s. (Inr (clock ext (ticks s)), s\<lparr>ticks := Suc (ticks s)\<rparr>))"

definition ends_with :: "string \<Rightarrow> string \<Rightarrow> bool" where
  "ends_with sfx p = (length sfx \<le> length p \<and> drop (length p - length sfx) p = sfx)"

text \<open>\<^verbatim>\<open>np.save\<close> appends \<^verbatim>\<open>.npy\<close> to a file name that does not end with it.\<close>

definition npy_target :: "path \<Rightarrow> path" where
  "npy_target p = (if ends_with ''.npy'' p then p else p @ ''.npy'')"

definition np_save :: "path \<Rightarrow> matrix \<Rightarrow> unit io" where
  "np_save p m =
     (\<lambda>s. (Inr (), s\<lparr>files := (files s)(npy_target p \<mapsto> NpyFile m),
                       trace := trace s @ [Wrote_npy (npy_target p) m]\<rparr>))"

definition np_load :: "path \<Rightarrow> matrix io" where
  "np_load p =
     (\<lambda>s. case files s p of
             None \<Rightarrow> (Inl (External ''numpy.load: FileNotFoundError''), s)
           | Some (NpyFile m) \<Rightarrow> (Inr m, s)
           | Some _ \<Rightarrow> (Inl (External ''numpy.load: not an npy file''), s))"

text \<open>
  Modelled from the spec: \<^verbatim>\<open>AFQ.data.write_json\<close> and \<^verbatim>\<open>AFQ.registration.write_mapping\<close>
  are not among the sources. The spec has the module write JSON metadata sidecar files, and
  has the warp artifact be a serialized displacement field or matrix cached on disk; so
  each call stores its argument under the given file name.
\<close>

definition write_json :: "path \<Rightarrow> kwargs \<Rightarrow> unit io" where
  "write_json p meta =
     (\<lambda>s. (Inr (), s\<lparr>files := (files s)(p \<mapsto> JsonFile meta),
                       trace := trace s @ [Wrote_json p meta]\<rparr>))"

definition write_mapping :: "mapping \<Rightarrow> path \<Rightarrow> unit io" where
  "write_mapping m p =
     (\<lambda>s. (Inr (), s\<lparr>files := (files s)(p \<mapsto> MappingFile m),
                       trace := trace s @ [Wrote_mapping p m]\<rparr>))"

text \<open>\<^verbatim>\<open>row['timing'][k] = row['timing'][k] + time() - start_time\<close>: the right side first.\<close>

definition add_timing :: "externals \<Rightarrow> string \<Rightarrow> real \<Rightarrow> unit io" where
  "add_timing ext k start_time =
     (\<lambda>s. case timing s k of
             None \<Rightarrow> (Inl (KeyError k), s)
           | Some t \<Rightarrow>
               bind (time ext)
                 (\<lambda>now s1. (Inr (), s1\<lparr>timing := (timing s1)(k \<mapsto> t + now - start_time)\<rparr>)) s)"

subsection \<open>GeneratedMapMixin\<close>

definition get_fnames ::
  "externals \<Rightarrow> pyval \<Rightarrow> afq_object \<Rightarrow> row \<Rightarrow> py_error + (path \<times> path)" where
  "get_fnames ext extension afq r =
     (let mapping_file = get_fname ext afq r ''_mapping_from-DWI_to_MNI_xfm'';
          meta_fname = get_fname ext afq r ''_mapping_reg''
      in case as_str extension of
           Inl e \<Rightarrow> Inl e
         | Inr x \<Rightarrow> Inr (mapping_file @ x, meta_fname @ ''.json''))"

definition prealign :: "externals \<Rightarrow> gen_map \<Rightarrow> afq_object \<Rightarrow> row \<Rightarrow> path io" where
  "prealign ext self afq r =
     (let prealign_file = get_fname ext afq r ''_prealign_from-DWI_to-MNI_xfm.npy'' in
      bind (op_exists prealign_file) (\<lambda>present.
      bind (if \<not> present then
          bind (lift (call (reg_img ext afq (reg_subject afq) True r))) (\<lambda>(reg_subject_img, _).
          bind (time ext) (\<lambda>start_time.
          bind (lift (getattr self ''affine_kwargs'')) (\<lambda>v.
          bind (lift (as_kwargs v)) (\<lambda>affine_kwargs.
          bind (emit Call_affine_registration) (\<lambda>_.
          bind (lift (call (affine_registration ext reg_subject_img (reg_template_img afq)
                              affine_kwargs))) (\<lambda>(_, aff).
          bind (np_save prealign_file aff) (\<lambda>_.
          bind (write_json (get_fname ext afq r ''_prealign_from-DWI_to-MNI_xfm.json'')
                  [(''type'', PStr ''rigid'')]) (\<lambda>_.
          add_timing ext ''Registration_pre_align'' start_time))))))))
        else return ()) (\<lambda>_.
      return prealign_file)))"

definition SynMap_gen_mapping ::
  "externals \<Rightarrow> gen_map \<Rightarrow> afq_object \<Rightarrow> row \<Rightarrow> nifti \<Rightarrow> sls \<Rightarrow> nifti \<Rightarrow> sls \<Rightarrow> matrix option
     \<Rightarrow> mapping io" where
  "SynMap_gen_mapping ext self afq r reg_template_img' reg_template_sls reg_subject_img
       reg_subject_sls reg_prealign =
     bind (lift (getattr self ''syn_kwargs'')) (\<lambda>v.
     bind (lift (as_kwargs v)) (\<lambda>syn_kwargs.
     bind (emit Call_syn_registration) (\<lambda>_.
     bind (lift (call (syn_registration ext (fdata reg_subject_img) (fdata reg_template_img')
                         (affine reg_subject_img) (affine reg_template_img') reg_prealign
                         syn_kwargs))) (\<lambda>(_, m).
     bind (lift (getattr self ''use_prealign'')) (\<lambda>use_prealign.
     if truthy use_prealign then
       (case reg_prealign of
          None \<Rightarrow> raise (External ''numpy.linalg.inv: LinAlgError'')
        | Some p \<Rightarrow>
            bind (lift (call (linalg_inv ext p))) (\<lambda>w2g.
            return (ExternalMapping (m\<lparr>codomain_world2grid := w2g\<rparr>))))
     else return (ExternalMapping m))))))"

definition SlrMap_gen_mapping ::
  "externals \<Rightarrow> gen_map \<Rightarrow> afq_object \<Rightarrow> row \<Rightarrow> nifti \<Rightarrow> sls \<Rightarrow> nifti \<Rightarrow> sls \<Rightarrow> matrix option
     \<Rightarrow> mapping io" where
  "SlrMap_gen_mapping ext self afq r reg_template_img' reg_template_sls reg_subject_img
       reg_subject_sls reg_prealign =
     bind (lift (getattr self ''slr_kwargs'')) (\<lambda>v.
     bind (lift (as_kwargs v)) (\<lambda>slr_kwargs.
     bind (emit Call_slr_registration) (\<lambda>_.
     lift (call (slr_registration ext reg_subject_sls reg_template_sls
                   (affine reg_subject_img) (shape (fdata reg_subject_img))
                   (affine reg_template_img') (shape (fdata reg_template_img'))
                   slr_kwargs)))))"

definition AffMap_gen_mapping ::
  "externals \<Rightarrow> gen_map \<Rightarrow> afq_object \<Rightarrow> row \<Rightarrow> nifti \<Rightarrow> sls \<Rightarrow> nifti \<Rightarrow> sls \<Rightarrow> matrix option
     \<Rightarrow> mapping io" where
  "AffMap_gen_mapping ext self afq r reg_template_img' reg_template_sls reg_subject_img
       reg_subject_sls reg_prealign =
     bind (prealign ext self afq r) (\<lambda>prealign_file.
     bind (np_load prealign_file) (\<lambda>aff.
     return (AffineMapping \<lparr>affine_matrix = aff\<rparr>)))"

text \<open>\<^verbatim>\<open>self.gen_mapping(...)\<close>: the method of the object's class.\<close>

definition gen_mapping ::
  "externals \<Rightarrow> gen_map \<Rightarrow> afq_object \<Rightarrow> row \<Rightarrow> nifti \<Rightarrow> sls \<Rightarrow> nifti \<Rightarrow> sls \<Rightarrow> matrix option
     \<Rightarrow> mapping io" where
  "gen_mapping ext self afq r t_img t_sls s_img s_sls reg_prealign =
     bind (emit (Call_gen_mapping (cls self))) (\<lambda>_.
     case cls self of
       SynMap \<Rightarrow> SynMap_gen_mapping ext self afq r t_img t_sls s_img s_sls reg_prealign
     | SlrMap \<Rightarrow> SlrMap_gen_mapping ext self afq r t_img t_sls s_img s_sls reg_prealign
     | AffMap \<Rightarrow> AffMap_gen_mapping ext self afq r t_img t_sls s_img s_sls reg_prealign)"

definition get_for_row :: "externals \<Rightarrow> gen_map \<Rightarrow> afq_object \<Rightarrow> row \<Rightarrow> mapping io" where
  "get_for_row ext self afq r =
     bind (lift (getattr self ''extension'')) (\<lambda>extension.
     bind (lift (get_fnames ext extension afq r)) (\<lambda>(mapping_file, meta_fname).
     bind (lift (getattr self ''use_prealign'')) (\<lambda>use_prealign.
     bind (if truthy use_prealign
           then bind (prealign ext self afq r) (\<lambda>f. bind (np_load f) (\<lambda>m. return (Some m)))
           else return None) (\<lambda>reg_prealign.
     bind (op_exists mapping_file) (\<lambda>present.
     bind (if \<not> present then
         bind (lift (call (reg_img ext afq (reg_template afq) False r))) (\<lambda>(t_img, t_sls).
         bind (lift (call (reg_img ext afq (reg_subject afq) True r))) (\<lambda>(s_img, s_sls).
         bind (time ext) (\<lambda>start_time.
         bind (gen_mapping ext self afq r t_img t_sls s_img s_sls reg_prealign) (\<lambda>m.
         bind (add_timing ext ''Registration'' start_time) (\<lambda>_.
         bind (write_mapping m mapping_file) (\<lambda>_.
         write_json meta_fname [(''type'', PStr ''displacementfield'')]))))))
       else return ()) (\<lambda>_.
     bind (lift (getattr self ''use_prealign'')) (\<lambda>use_prealign2.
     bind (if truthy use_prealign2
           then (case reg_prealign of
                   None \<Rightarrow> raise (External ''numpy.linalg.inv: LinAlgError'')
                 | Some p \<Rightarrow> bind (lift (call (linalg_inv ext p))) (\<lambda>i. return (Some i)))
           else return None) (\<lambda>reg_prealign_inv.
     (\<lambda>s. (call (read_mapping ext (files s) (DispFile mapping_file) (dwi_file r)
                    (reg_template_img afq) reg_prealign_inv), s))))))))))"

text \<open>\<^verbatim>\<open>find_path\<close> of \<^verbatim>\<open>SynMap\<close>, \<^verbatim>\<open>SlrMap\<close> and \<^verbatim>\<open>AffMap\<close>: each body is \<^verbatim>\<open>pass\<close>.
  The outcome is the returned value, the object and the state after the call.\<close>

definition SynMap_find_path ::
  "gen_map \<Rightarrow> bids_layout \<Rightarrow> path \<Rightarrow> string \<Rightarrow> string \<Rightarrow> state
     \<Rightarrow> (py_error + pyval) \<times> gen_map \<times> state" where
  "SynMap_find_path self bids_layout from_path subj session s = (Inr PNone, self, s)"

definition SlrMap_find_path ::
  "gen_map \<Rightarrow> bids_layout \<Rightarrow> path \<Rightarrow> string \<Rightarrow> string \<Rightarrow> state
     \<Rightarrow> (py_error + pyval) \<times> gen_map \<times> state" where
  "SlrMap_find_path self bids_layout from_path subj session s = (Inr PNone, self, s)"

definition AffMap_find_path ::
  "gen_map \<Rightarrow> bids_layout \<Rightarrow> path \<Rightarrow> string \<Rightarrow> string \<Rightarrow> state
     \<Rightarrow> (py_error + pyval) \<times> gen_map \<times> state" where
  "AffMap_find_path self bids_layout from_path subj session s = (Inr PNone, self, s)"

definition find_path ::
  "gen_map \<Rightarrow> bids_layout \<Rightarrow> path \<Rightarrow> string \<Rightarrow> string \<Rightarrow> state
     \<Rightarrow> (py_error + pyval) \<times> gen_map \<times> state" where
  "find_path self bids_layout from_path subj session s =
     (case cls self of
        SynMap \<Rightarrow> SynMap_find_path self bids_layout from_path subj session s
      | SlrMap \<Rightarrow> SlrMap_find_path self bids_layout from_path subj session s
      | AffMap \<Rightarrow> AffMap_find_path self bids_layout from_path subj session s)"

section \<open>ConformedAffineMapping\<close>

text \<open>
  Both methods have the signature \<^verbatim>\<open>(self, *args, interpolation='linear', **kwargs)\<close>.
  A call binds the keyword \<^verbatim>\<open>interpolation\<close> to the parameter (the default when the
  call has none) and the other keywords, in order, to \<^verbatim>\<open>kwargs\<close>; the body then assigns
  \<^verbatim>\<open>kwargs['interp']\<close> and calls the opposite method of \<^verbatim>\<open>AffineMap\<close>.
\<close>

definition bind_interpolation :: "kwargs \<Rightarrow> pyval \<times> kwargs" where
  "bind_interpolation call_kwargs =
     ((case map_of call_kwargs ''interpolation'' of None \<Rightarrow> PStr ''linear'' | Some v \<Rightarrow> v),
      AList.delete ''interpolation'' call_kwargs)"

definition ConformedAffineMapping_transform ::
  "externals \<Rightarrow> ConformedAffineMapping \<Rightarrow> ndarray list \<Rightarrow> kwargs \<Rightarrow> py_error + ndarray" where
  "ConformedAffineMapping_transform ext self args call_kwargs =
     (case bind_interpolation call_kwargs of
        (interpolation, kw) \<Rightarrow>
          call (AffineMap_transform_inverse ext self args
                  (AList.update ''interp'' interpolation kw)))"

definition ConformedAffineMapping_transform_inverse ::
  "externals \<Rightarrow> ConformedAffineMapping \<Rightarrow> ndarray list \<Rightarrow> kwargs \<Rightarrow> py_error + ndarray" where
  "ConformedAffineMapping_transform_inverse ext self args call_kwargs =
     (case bind_interpolation call_kwargs of
        (interpolation, kw) \<Rightarrow>
          call (AffineMap_transform ext self args (AList.update ''interp'' interpolation kw)))"

section \<open>The five configuration classes and the mapping interface\<close>

datatype definition_obj = Fnirt FnirtMap | Itk ItkMap | Generated gen_map

text \<open>\<^verbatim>\<open>definition.get_for_row(afq_object, row)\<close>: the method of the object's class.\<close>

definition get_for_row_of ::
  "externals \<Rightarrow> definition_obj \<Rightarrow> afq_object \<Rightarrow> row \<Rightarrow> mapping io" where
  "get_for_row_of ext d afq r =
     (case d of
        Fnirt f \<Rightarrow> (\<lambda>s. (FnirtMap_get_for_row ext f afq r (files s), s))
      | Itk i \<Rightarrow> (\<lambda>s. (ItkMap_get_for_row ext i afq r (files s), s))
      | Generated g \<Rightarrow> get_for_row ext g afq r)"

text \<open>
  The method names an object answers to: those its class defines in this module, then
  those of the base class \<^verbatim>\<open>AffineMap\<close> for \<^verbatim>\<open>ConformedAffineMapping\<close>; for an object of an
  outside class, those of that class.
\<close>

definition ConformedFnirtMapping_methods :: "string list" where
  "ConformedFnirtMapping_methods = [''__init__'', ''transform_inverse'', ''transform'']"

definition ConformedAffineMapping_methods :: "externals \<Rightarrow> string list" where
  "ConformedAffineMapping_methods ext = [''transform'', ''transform_inverse''] @ AffineMap_methods ext"

fun methods_of :: "externals \<Rightarrow> mapping \<Rightarrow> string list" where
  "methods_of ext (FnirtMapping m) = ConformedFnirtMapping_methods"
| "methods_of ext (AffineMapping m) = ConformedAffineMapping_methods ext"
| "methods_of ext (ExternalMapping m) = dm_methods m"

definition exposes :: "externals \<Rightarrow> mapping \<Rightarrow> string \<Rightarrow> bool" where
  "exposes ext m name = (name \<in> set (methods_of ext m))"

text \<open>
  Modelled from the spec: \<^verbatim>\<open>AFQ.registration.read_mapping\<close> is not among the sources. The
  spec's data model has a Mapping be opaque, produced by an external registration routine
  or file, and expose \<^verbatim>\<open>transform(data, **kwargs)\<close> and
  \<^verbatim>\<open>transform_inverse(data, **kwargs)\<close>; this is that contract for what
  \<^verbatim>\<open>read_mapping\<close> returns.
\<close>

definition read_mapping_contract :: "externals \<Rightarrow> bool" where
  "read_mapping_contract ext =
     (\<forall>fs disp dwi templ pre m.
        read_mapping ext fs disp dwi templ pre = Inr m \<longrightarrow>
          exposes ext m ''transform'' \<and> exposes ext m ''transform_inverse'')"

section \<open>Notions used in the statements\<close>

text \<open>The entry that a dictionary of dictionaries holds for a pair of keys.\<close>

definition entry :: "(string \<rightharpoonup> (string \<rightharpoonup> 'v)) \<Rightarrow> string \<Rightarrow> string \<Rightarrow> 'v option" where
  "entry d k1 k2 = (case d k1 of None \<Rightarrow> None | Some d1 \<Rightarrow> d1 k2)"

text \<open>The events that a run from state \<open>s\<close> to state \<open>s'\<close> added to the trace.\<close>

definition new_events :: "state \<Rightarrow> state \<Rightarrow> event list" where
  "new_events s s' = drop (length (trace s)) (trace s')"

fun is_gen_mapping :: "event \<Rightarrow> bool" where
  "is_gen_mapping (Call_gen_mapping c) = True"
| "is_gen_mapping Call_syn_registration = True"
| "is_gen_mapping Call_slr_registration = True"
| "is_gen_mapping (Wrote_mapping p m) = True"
| "is_gen_mapping e = False"

text \<open>
  Every artifact written is directly followed by its sidecar: a \<^verbatim>\<open>.npy\<close> prealign matrix
  by the JSON file \<open>pj\<close> with \<^verbatim>\<open>{"type": "rigid"}\<close>, a mapping by the JSON file \<open>mj\<close> with
  \<^verbatim>\<open>{"type": "displacementfield"}\<close>.
\<close>

fun sidecars_follow :: "path \<Rightarrow> path \<Rightarrow> event list \<Rightarrow> bool" where
  "sidecars_follow pj mj [] = True"
| "sidecars_follow pj mj (Wrote_npy p m # es) =
     (case es of
        Wrote_json q meta # es' \<Rightarrow>
          q = pj \<and> meta = [(''type'', PStr ''rigid'')] \<and> sidecars_follow pj mj es'
      | _ \<Rightarrow> False)"
| "sidecars_follow pj mj (Wrote_mapping p m # es) =
     (case es of
        Wrote_json q meta # es' \<Rightarrow>
          q = mj \<and> meta = [(''type'', PStr ''displacementfield'')] \<and> sidecars_follow pj mj es'
      | _ \<Rightarrow> False)"
| "sidecars_follow pj mj (e # es) = sidecars_follow pj mj es"

section \<open>Notions for reasoning about runs\<close>

text \<open>
  An artifact and its sidecar are written by two consecutive calls; the two together are
  one step for the reasoning below.
\<close>

definition save_npy_json :: "path \<Rightarrow> matrix \<Rightarrow> path \<Rightarrow> kwargs \<Rightarrow> unit io" where
  "save_npy_json p m q meta = bind (np_save p m) (\<lambda>_. write_json q meta)"

definition save_mapping_json :: "mapping \<Rightarrow> path \<Rightarrow> path \<Rightarrow> kwargs \<Rightarrow> unit io" where
  "save_mapping_json m p q meta = bind (write_mapping m p) (\<lambda>_. write_json q meta)"

text \<open>An assertion on states that every run of a computation keeps.\<close>

definition preserved :: "(state \<Rightarrow> bool) \<Rightarrow> 'a io \<Rightarrow> bool" where
  "preserved I m = (\<forall>s. I s \<longrightarrow> I (snd (m s)))"

text \<open>
  The assertions used: since the start \<open>s0\<close> the files in \<open>present\<close> exist, and the events
  added to the trace satisfy \<open>P\<close>, a property that holds of no events and of two runs in
  a row when it holds of each.
\<close>

definition run_inv :: "state \<Rightarrow> path set \<Rightarrow> (event list \<Rightarrow> bool) \<Rightarrow> state \<Rightarrow> bool" where
  "run_inv s0 present P s =
     (present \<subseteq> dom (files s) \<and> (\<exists>es. trace s = trace s0 @ es \<and> P es))"

definition closed_under_append :: "(event list \<Rightarrow> bool) \<Rightarrow> bool" where
  "closed_under_append P = (P [] \<and> (\<forall>a b. P a \<longrightarrow> P b \<longrightarrow> P (a @ b)))"

text \<open>
  The three phases of \<^verbatim>\<open>GeneratedMapMixin.get_for_row\<close> after the file names are known:
  the prealignment, the registration guarded by the presence check, and the load.
\<close>

definition prealign_block ::
  "externals \<Rightarrow> gen_map \<Rightarrow> afq_object \<Rightarrow> row \<Rightarrow> pyval \<Rightarrow> matrix option io" where
  "prealign_block ext self afq r up =
     (if truthy up
      then bind (prealign ext self afq r) (\<lambda>f. bind (np_load f) (\<lambda>m. return (Some m)))
      else return None)"

definition registration_block ::
  "externals \<Rightarrow> gen_map \<Rightarrow> afq_object \<Rightarrow> row \<Rightarrow> path \<Rightarrow> path \<Rightarrow> matrix option \<Rightarrow> unit io" where
  "registration_block ext self afq r mf mj pre =
     bind (op_exists mf) (\<lambda>present.
       if \<not> present then
         bind (lift (call (reg_img ext afq (reg_template afq) False r))) (\<lambda>(t_img, t_sls).
         bind (lift (call (reg_img ext afq (reg_subject afq) True r))) (\<lambda>(s_img, s_sls).
         bind (time ext) (\<lambda>start_time.
         bind (gen_mapping ext self afq r t_img t_sls s_img s_sls pre) (\<lambda>m.
         bind (add_timing ext ''Registration'' start_time) (\<lambda>_.
         save_mapping_json m mf mj [(''type'', PStr ''displacementfield'')])))))
       else return ())"

definition load_block ::
  "externals \<Rightarrow> gen_map \<Rightarrow> afq_object \<Rightarrow> row \<Rightarrow> path \<Rightarrow> matrix option \<Rightarrow> mapping io" where
  "load_block ext self afq r mf pre =
     bind (lift (getattr self ''use_prealign'')) (\<lambda>up.
     bind (if truthy up
           then (case pre of
                   None \<Rightarrow> raise (External ''numpy.linalg.inv: LinAlgError'')
                 | Some p \<Rightarrow> bind (lift (call (linalg_inv ext p))) (\<lambda>i. return (Some i)))
           else return None) (\<lambda>pinv.
     (\<lambda>s. (call (read_mapping ext (files s) (DispFile mf) (dwi_file r)
                    (reg_template_img afq) pinv), s))))"

section \<open>A concrete installation, for the examples\<close>

text \<open>
  Stand-ins for the collaborators, small enough to evaluate: files are found under the
  search path, an image or a warp is whatever the file holds, registration returns the
  template's geometry, \<^verbatim>\<open>AffineMap.transform\<close> returns its first argument and
  \<^verbatim>\<open>AffineMap.transform_inverse\<close> returns it reversed, and \<^verbatim>\<open>read_mapping\<close> gives an affine mapping for a matrix file
  and an object with both transform methods for a displacement field.
\<close>

definition example_methods :: "string list" where
  "example_methods = [''__init__'', ''transform'', ''transform_inverse'']"

definition example_read_mapping ::
  "filesystem \<Rightarrow> disp_arg \<Rightarrow> path \<Rightarrow> nifti \<Rightarrow> matrix option \<Rightarrow> string + mapping" where
  "example_read_mapping fs disp dwi templ pre =
     (case disp of
        DispImage n \<Rightarrow>
          Inr (ExternalMapping \<lparr>dm_methods = example_methods, dm_field = fdata n,
                                codomain_world2grid = affine templ\<rparr>)
      | DispFile f \<Rightarrow>
          (case fs f of
             Some (MappingFile (AffineMapping a)) \<Rightarrow> Inr (AffineMapping a)
           | Some (MappingFile (ExternalMapping d)) \<Rightarrow>
               Inr (ExternalMapping (d\<lparr>dm_methods := example_methods\<rparr>))
           | Some (NpyFile m) \<Rightarrow> Inr (AffineMapping \<lparr>affine_matrix = m\<rparr>)
           | _ \<Rightarrow> Inl ''read_mapping: cannot load the file''))"

definition example_ext :: externals where
  "example_ext =
     \<lparr>find_file = (\<lambda>layout p filters suffix session subj e. Inr (p @ ''/'' @ subj @ ''_'' @ suffix)),
      Image_load = (\<lambda>fs p. case fs p of Some (NiftiFile n) \<Rightarrow> Inr (Image n)
                             | _ \<Rightarrow> Inl ''fslpy: cannot load the image''),
      readFnirt = (\<lambda>fs p t s. case fs p of Some (NiftiFile n) \<Rightarrow> Inr (DeformationField (fdata n))
                              | _ \<Rightarrow> Inl ''fslpy: cannot read the warp''),
      applyDeformation = (\<lambda>i w. case i of Image n \<Rightarrow> Inr (fdata n)),
      astype_float32 = (\<lambda>x. x),
      h5py_File = (\<lambda>fs p. case fs p of Some (H5File kv) \<Rightarrow> Inr (map_of kv)
                            | _ \<Rightarrow> Inl ''h5py: cannot open the file''),
      read_mapping = example_read_mapping,
      slr_registration = (\<lambda>m_sls s_sls m_aff m_shape s_aff s_shape kw.
                            Inr (AffineMapping \<lparr>affine_matrix = s_aff\<rparr>)),
      syn_registration = (\<lambda>m s m_aff s_aff pre kw.
                            Inr (m, \<lparr>dm_methods = example_methods, dm_field = s,
                                     codomain_world2grid = s_aff\<rparr>)),
      affine_registration = (\<lambda>m s kw. Inr (fdata m, affine s)),
      AffineMap_transform = (\<lambda>self args kw. case args of [] \<Rightarrow> Inl ''TypeError'' | a # _ \<Rightarrow> Inr a),
      AffineMap_transform_inverse =
        (\<lambda>self args kw. case args of [] \<Rightarrow> Inl ''TypeError''
                          | a # _ \<Rightarrow> Inr (a\<lparr>flat := rev (flat a)\<rparr>)),
      AffineMap_methods = example_methods,
      get_fname = (\<lambda>afq r suffix. ''out/'' @ subject r @ suffix),
      reg_img = (\<lambda>afq spec mask r. Inr (reg_template_img afq, [])),
      linalg_inv = (\<lambda>m. Inr m),
      clock = (\<lambda>n. real n)\<rparr>"

definition example_identity :: matrix where
  "example_identity = [[1, 0, 0, 0], [0, 1, 0, 0], [0, 0, 1, 0], [0, 0, 0, 1]]"

definition example_template :: nifti where
  "example_template = \<lparr>fdata = \<lparr>shape = [1, 1, 2], flat = [0, 1]\<rparr>, affine = example_identity\<rparr>"

definition example_afq :: afq_object where
  "example_afq = \<lparr>reg_template_img = example_template, reg_template = ''mni_T1'',
                   reg_subject = ''power_map''\<rparr>"

definition example_row :: row where
  "example_row = \<lparr>ses = ''01'', subject = ''A'', dwi_file = ''in/A_dwi.nii.gz''\<rparr>"

definition example_state :: state where
  "example_state =
     \<lparr>files = [''in/A_dwi.nii.gz'' \<mapsto> NiftiFile example_template],
      trace = [], ticks = 0,
      timing = [''Registration'' \<mapsto> 0, ''Registration_pre_align'' \<mapsto> 0]\<rparr>"

definition example_fnirt :: FnirtMap where
  "example_fnirt = \<lparr>warp_suffix = ''warp'', space_suffix = ''MNI'',
      warp_filters = [(''scope'', PStr ''TBSS'')], space_filters = [(''scope'', PStr ''TBSS'')],
      fnames = Map.empty\<rparr>"

definition example_itk :: ItkMap where
  "example_itk = \<lparr>itk_warp_suffix = ''xfm'', itk_warp_filters = [(''scope'', PStr ''qsiprep'')],
      itk_fnames = Map.empty\<rparr>"

definition example_itk_found :: ItkMap where
  "example_itk_found = example_itk\<lparr>itk_fnames := [''01'' \<mapsto> [''A'' \<mapsto> ''in/A_xfm.h5'']]\<rparr>"

definition example_h5 :: "real \<Rightarrow> (string list \<times> real list) list" where
  "example_h5 depth =
     [([''TransformGroup'', ''1'', ''TransformFixedParameters''],
       [1, 1, depth, 0, 0, 0, 1, 1, 1, 1, 0, 0, 0, 1, 0, 0, 0, 1]),
      ([''TransformGroup'', ''1'', ''TransformParameters''], [5, 0, 0, 0, 7, 0]),
      ([''TransformGroup'', ''2'', ''TransformParameters''],
       [1, 0, 0, 0, 1, 0, 0, 0, 1, 2, 3, 4])]"

definition example_warp_fs :: "real \<Rightarrow> filesystem" where
  "example_warp_fs depth = [''in/A_xfm.h5'' \<mapsto> H5File (example_h5 depth)]"

definition example_syn :: gen_map where
  "example_syn = SynMap_init True [] []"

definition example_aff :: gen_map where
  "example_aff = AffMap_init []"

text \<open>A directory that holds both artifacts of the example already.\<close>

definition example_cached_state :: state where
  "example_cached_state =
     example_state\<lparr>files :=
       [''out/A_mapping_from-DWI_to_MNI_xfm.nii.gz'' \<mapsto>
          MappingFile (AffineMapping \<lparr>affine_matrix = example_identity\<rparr>),
        ''out/A_prealign_from-DWI_to-MNI_xfm.npy'' \<mapsto> NpyFile example_identity]\<rparr>"

section \<open>Basic facts\<close>

lemma call_Inr [simp]: "(call r = Inr x) = (r = Inr x)"
  by (simp add: call_def split: sum.splits)

lemma call_Inl [simp]: "(call r = Inl e) = (\<exists>msg. r = Inl msg \<and> e = External msg)"
  by (auto simp: call_def split: sum.splits)

lemma call_simps [simp]: "call (Inl msg) = Inl (External msg)" "call (Inr x) = Inr x"
  by (simp_all add: call_def)

lemma has_fslpy_iff: "has_fslpy env = (''fslpy'' \<in> set env)"
  by (simp add: has_fslpy_def module_found_def provider_def)

lemma has_h5py_iff: "has_h5py env = (''h5py'' \<in> set env)"
  by (simp add: has_h5py_def module_found_def provider_def)

lemma lookup2_entry:
  "lookup2 d k1 k2 = (case entry d k1 k2 of
      None \<Rightarrow> Inl (KeyError (if d k1 = None then k1 else k2)) | Some v \<Rightarrow> Inr v)"
  by (auto simp: entry_def lookup2_def split: option.splits)

section \<open>Construction and optional dependencies\<close>

text \<open>
  Claim C4. Constructing a \<^verbatim>\<open>FnirtMap\<close> raises \<^verbatim>\<open>ImportError\<close> exactly when fslpy is not
  installed, and constructing an \<^verbatim>\<open>ItkMap\<close> raises \<^verbatim>\<open>ImportError\<close> exactly when h5py is
  not installed; with the dependency installed the constructor returns the object that
  holds the given suffixes and filters (and an empty \<^verbatim>\<open>fnames\<close>).
\<close>

theorem init_ImportError_iff_dependency_missing:
  "((\<exists>msg. FnirtMap_init env w_suffix s_suffix w_filters s_filters = Inl (ImportError msg))
      = (''fslpy'' \<notin> set env))
   \<and> (''fslpy'' \<in> set env \<longrightarrow>
        FnirtMap_init env w_suffix s_suffix w_filters s_filters =
          Inr \<lparr>warp_suffix = w_suffix, space_suffix = s_suffix, warp_filters = w_filters,
               space_filters = s_filters, fnames = Map.empty\<rparr>)
   \<and> ((\<exists>msg. ItkMap_init env w_suffix w_filters = Inl (ImportError msg))
      = (''h5py'' \<notin> set env))
   \<and> (''h5py'' \<in> set env \<longrightarrow>
        ItkMap_init env w_suffix w_filters =
          Inr \<lparr>itk_warp_suffix = w_suffix, itk_warp_filters = w_filters,
               itk_fnames = Map.empty\<rparr>)"
  by (simp add: FnirtMap_init_def ItkMap_init_def has_fslpy_iff has_h5py_iff)

theorem init_ImportError_witness:
  "FnirtMap_init [''fslpy'', ''h5py''] ''warp'' ''MNI'' [(''scope'', PStr ''TBSS'')]
       [(''scope'', PStr ''TBSS'')] =
     Inr \<lparr>warp_suffix = ''warp'', space_suffix = ''MNI'',
          warp_filters = [(''scope'', PStr ''TBSS'')],
          space_filters = [(''scope'', PStr ''TBSS'')], fnames = Map.empty\<rparr>
   \<and> ItkMap_init [''fslpy'', ''h5py''] ''warp'' [(''scope'', PStr ''TBSS'')] =
     Inr \<lparr>itk_warp_suffix = ''warp'', itk_warp_filters = [(''scope'', PStr ''TBSS'')],
          itk_fnames = Map.empty\<rparr>
   \<and> (\<exists>msg. FnirtMap_init [''h5py''] ''warp'' ''MNI'' [] [] = Inl (ImportError msg))
   \<and> (\<exists>msg. ItkMap_init [''fslpy''] ''warp'' [] = Inl (ImportError msg))"
  using init_ImportError_iff_dependency_missing [of "[''fslpy'', ''h5py'']" "''warp''" "''MNI''"
      "[(''scope'', PStr ''TBSS'')]" "[(''scope'', PStr ''TBSS'')]"]
    init_ImportError_iff_dependency_missing [of "[''h5py'']" "''warp''" "''MNI''" "[]" "[]"]
    init_ImportError_iff_dependency_missing [of "[''fslpy'']" "''warp''" "''MNI''" "[]" "[]"]
  by simp

section \<open>\<^verbatim>\<open>find_path\<close> and the lookup in \<^verbatim>\<open>get_for_row\<close>\<close>

text \<open>
  Claim C9. For \<^verbatim>\<open>SynMap\<close>, \<^verbatim>\<open>SlrMap\<close> and \<^verbatim>\<open>AffMap\<close>, \<^verbatim>\<open>find_path\<close> does nothing: for all
  arguments it returns \<^verbatim>\<open>None\<close> and leaves the object and the state, the file system
  included, as they were.
\<close>

theorem generated_find_path_noop:
  "SynMap_find_path self bids_layout from_path subj session s = (Inr PNone, self, s)
   \<and> SlrMap_find_path self bids_layout from_path subj session s = (Inr PNone, self, s)
   \<and> AffMap_find_path self bids_layout from_path subj session s = (Inr PNone, self, s)
   \<and> find_path self bids_layout from_path subj session s = (Inr PNone, self, s)"
  by (simp add: SynMap_find_path_def SlrMap_find_path_def AffMap_find_path_def find_path_def
      split: gen_class.split)

lemma FnirtMap_find_path_stores:
  assumes "fst (FnirtMap_find_path ext self b p subj session) = Inr ()"
  shows "\<exists>w sp. entry (fnames (snd (FnirtMap_find_path ext self b p subj session))) session subj
            = Some (w, sp)
          \<and> find_file ext b p (warp_filters self) (warp_suffix self) session subj None = Inr w
          \<and> find_file ext b p (space_filters self) (space_suffix self) session subj None = Inr sp"
  using assms
  by (auto simp: FnirtMap_find_path_def entry_def Let_def split: sum.splits if_splits option.splits)

lemma FnirtMap_find_path_frame:
  assumes "session' \<noteq> session \<or> subj' \<noteq> subj"
  shows "entry (fnames (snd (FnirtMap_find_path ext self b p subj session))) session' subj'
           = entry (fnames self) session' subj'"
  using assms
  by (auto simp: FnirtMap_find_path_def entry_def Let_def split: sum.splits if_splits option.splits)

lemma FnirtMap_find_path_returns:
  "(fst (FnirtMap_find_path ext self b p subj session) = Inr ())
     = ((\<exists>w. find_file ext b p (warp_filters self) (warp_suffix self) session subj None = Inr w)
        \<and> (\<exists>sp. find_file ext b p (space_filters self) (space_suffix self) session subj None = Inr sp))"
  by (auto simp: FnirtMap_find_path_def entry_def Let_def split: sum.splits if_splits option.splits)

lemma ItkMap_find_path_stores:
  assumes "fst (ItkMap_find_path ext self b p subj session) = Inr ()"
  shows "\<exists>w. entry (itk_fnames (snd (ItkMap_find_path ext self b p subj session))) session subj
            = Some w
          \<and> find_file ext b p (itk_warp_filters self) (itk_warp_suffix self) session subj
               (Some ''h5'') = Inr w"
  using assms
  by (auto simp: ItkMap_find_path_def entry_def Let_def split: sum.splits if_splits option.splits)

lemma ItkMap_find_path_frame:
  assumes "session' \<noteq> session \<or> subj' \<noteq> subj"
  shows "entry (itk_fnames (snd (ItkMap_find_path ext self b p subj session))) session' subj'
           = entry (itk_fnames self) session' subj'"
  using assms
  by (auto simp: ItkMap_find_path_def entry_def Let_def split: sum.splits if_splits option.splits)

lemma FnirtMap_get_for_row_KeyError:
  "(\<exists>k. FnirtMap_get_for_row ext self afq r fs = Inl (KeyError k))
     = (entry (fnames self) (ses r) (subject r) = None)"
  by (auto simp: FnirtMap_get_for_row_def lookup2_entry Let_def
      split: option.splits sum.splits prod.splits)

lemma numpy_errors_external:
  "h5_get f ks = Inl e \<Longrightarrow> \<exists>msg. e = External msg"
  "np_ne a b = Inl e \<Longrightarrow> \<exists>msg. e = External msg"
  "np_reshape xs dims = Inl e \<Longrightarrow> \<exists>msg. e = External msg"
  "np_zeros dims = Inl e \<Longrightarrow> \<exists>msg. e = External msg"
  "their_prealign_of p = Inl e \<Longrightarrow> \<exists>msg. e = External msg"
  by (auto simp: h5_get_def np_ne_def np_reshape_def np_zeros_def their_prealign_of_def Let_def
      split: option.splits if_splits)

lemma ItkMap_get_for_row_found:
  assumes "lookup2 (itk_fnames self) (ses r) (subject r) = Inr w"
  shows "ItkMap_get_for_row ext self afq r fs \<noteq> Inl (KeyError k)"
  using assms
  by (auto simp: ItkMap_get_for_row_def Let_def split: sum.split
      dest!: numpy_errors_external)

lemma ItkMap_get_for_row_KeyError:
  "(\<exists>k. ItkMap_get_for_row ext self afq r fs = Inl (KeyError k))
     = (entry (itk_fnames self) (ses r) (subject r) = None)"
proof (cases "entry (itk_fnames self) (ses r) (subject r)")
  case None
  then show ?thesis
    by (simp add: ItkMap_get_for_row_def lookup2_entry)
next
  case (Some w)
  then have "lookup2 (itk_fnames self) (ses r) (subject r) = Inr w"
    by (simp add: lookup2_entry)
  from ItkMap_get_for_row_found [OF this] Some show ?thesis
    by simp
qed

text \<open>
  Claim C10. For \<^verbatim>\<open>FnirtMap\<close> and \<^verbatim>\<open>ItkMap\<close>, \<^verbatim>\<open>get_for_row\<close> reads
  \<^verbatim>\<open>self.fnames[row['ses']][row['subject']]\<close> and raises \<^verbatim>\<open>KeyError\<close> exactly when no entry
  is stored for that session and subject. \<^verbatim>\<open>find_path\<close> returns when \<^verbatim>\<open>find_file\<close> does,
  and it then has stored what \<^verbatim>\<open>find_file\<close> found under (session, subject); the entries of
  all other pairs are as before.
\<close>

theorem get_for_row_requires_find_path:
  "((\<exists>k. FnirtMap_get_for_row ext f afq r fs = Inl (KeyError k))
      = (entry (fnames f) (ses r) (subject r) = None))
   \<and> ((\<exists>k. ItkMap_get_for_row ext i afq r fs = Inl (KeyError k))
      = (entry (itk_fnames i) (ses r) (subject r) = None))
   \<and> ((fst (FnirtMap_find_path ext f b p subj session) = Inr ())
      = ((\<exists>w. find_file ext b p (warp_filters f) (warp_suffix f) session subj None = Inr w)
         \<and> (\<exists>sp. find_file ext b p (space_filters f) (space_suffix f) session subj None = Inr sp)))
   \<and> (fst (FnirtMap_find_path ext f b p subj session) = Inr () \<longrightarrow>
        (\<exists>w sp. entry (fnames (snd (FnirtMap_find_path ext f b p subj session))) session subj
                   = Some (w, sp)
           \<and> find_file ext b p (warp_filters f) (warp_suffix f) session subj None = Inr w
           \<and> find_file ext b p (space_filters f) (space_suffix f) session subj None = Inr sp))
   \<and> (fst (ItkMap_find_path ext i b p subj session) = Inr () \<longrightarrow>
        (\<exists>w. entry (itk_fnames (snd (ItkMap_find_path ext i b p subj session))) session subj
                = Some w
           \<and> find_file ext b p (itk_warp_filters i) (itk_warp_suffix i) session subj
                (Some ''h5'') = Inr w))
   \<and> (session' \<noteq> session \<or> subj' \<noteq> subj \<longrightarrow>
        entry (fnames (snd (FnirtMap_find_path ext f b p subj session))) session' subj'
          = entry (fnames f) session' subj'
        \<and> entry (itk_fnames (snd (ItkMap_find_path ext i b p subj session))) session' subj'
          = entry (itk_fnames i) session' subj')"
  using FnirtMap_get_for_row_KeyError [of ext f afq r fs]
    ItkMap_get_for_row_KeyError [of ext i afq r fs]
    FnirtMap_find_path_returns [of ext f b p subj session]
    FnirtMap_find_path_stores [of ext f b p subj session]
    ItkMap_find_path_stores [of ext i b p subj session]
    FnirtMap_find_path_frame [of session' session subj' subj ext f b p]
    ItkMap_find_path_frame [of session' session subj' subj ext i b p]
  by blast

theorem get_for_row_requires_find_path_witness:
  "(\<exists>k. FnirtMap_get_for_row example_ext example_fnirt example_afq example_row
           (files example_state) = Inl (KeyError k))
   \<and> (\<exists>k. ItkMap_get_for_row example_ext example_itk example_afq example_row
           (files example_state) = Inl (KeyError k))
   \<and> entry (fnames (snd (FnirtMap_find_path example_ext example_fnirt [] ''in'' ''A'' ''01'')))
        ''01'' ''A'' = Some (''in/A_warp'', ''in/A_MNI'')
   \<and> entry (itk_fnames (snd (ItkMap_find_path example_ext example_itk [] ''in'' ''A'' ''01'')))
        ''01'' ''A'' = Some ''in/A_xfm''
   \<and> entry (fnames (snd (FnirtMap_find_path example_ext example_fnirt [] ''in'' ''A'' ''01'')))
        ''02'' ''A'' = None
   \<and> entry (itk_fnames (snd (ItkMap_find_path example_ext example_itk [] ''in'' ''A'' ''01'')))
        ''01'' ''B'' = None"
proof -
  have e1: "entry (fnames example_fnirt) (ses example_row) (subject example_row) = None"
    by (simp add: entry_def example_fnirt_def)
  have e2: "entry (itk_fnames example_itk) (ses example_row) (subject example_row) = None"
    by (simp add: entry_def example_itk_def)
  have e3: "entry (fnames example_fnirt) ''02'' ''A'' = None"
    by (simp add: entry_def example_fnirt_def)
  have e4: "entry (itk_fnames example_itk) ''01'' ''B'' = None"
    by (simp add: entry_def example_itk_def)
  have f1: "find_file example_ext [] ''in'' (warp_filters example_fnirt) (warp_suffix example_fnirt)
              ''01'' ''A'' None = Inr ''in/A_warp''"
    by (simp add: example_ext_def example_fnirt_def)
  have f2: "find_file example_ext [] ''in'' (space_filters example_fnirt)
              (space_suffix example_fnirt) ''01'' ''A'' None = Inr ''in/A_MNI''"
    by (simp add: example_ext_def example_fnirt_def)
  have f3: "find_file example_ext [] ''in'' (itk_warp_filters example_itk)
              (itk_warp_suffix example_itk) ''01'' ''A'' (Some ''h5'') = Inr ''in/A_xfm''"
    by (simp add: example_ext_def example_itk_def)
  have r2: "fst (ItkMap_find_path example_ext example_itk [] ''in'' ''A'' ''01'') = Inr ()"
    by (simp add: ItkMap_find_path_def f3 Let_def)
  show ?thesis
    using get_for_row_requires_find_path [of example_ext example_fnirt example_afq example_row
        "files example_state" example_itk "[]" "''in''" "''A''" "''01''" "''02''" "''A''"]
      get_for_row_requires_find_path [of example_ext example_fnirt example_afq example_row
        "files example_state" example_itk "[]" "''in''" "''A''" "''01''" "''01''" "''B''"]
      e1 e2 e3 e4 f1 f2 f3 r2
    by auto
qed

section \<open>The mapping classes\<close>

text \<open>
  Claim C6. For every \<^verbatim>\<open>ConformedFnirtMapping\<close> and every input, \<^verbatim>\<open>transform\<close> raises
  \<^verbatim>\<open>NotImplementedError\<close>; \<^verbatim>\<open>transform_inverse\<close> returns the deformed data whenever
  fslpy's \<^verbatim>\<open>applyDeformation\<close> accepts the image made of the data (in single precision) and
  the reference affine, and it raises only what \<^verbatim>\<open>applyDeformation\<close> raises.
\<close>

theorem ConformedFnirtMapping_directions:
  "ConformedFnirtMapping_transform self data kw =
     Inl (NotImplementedError
       ''Fnirt based mappings can currently only transform from template to subject space'')
   \<and> (\<forall>d. applyDeformation ext
          (Image \<lparr>fdata = data\<lparr>flat := map (astype_float32 ext) (flat data)\<rparr>,
                  affine = ref_affine self\<rparr>) (warp self) = Inr d \<longrightarrow>
        ConformedFnirtMapping_transform_inverse ext self data kw = Inr d)
   \<and> (\<forall>e. ConformedFnirtMapping_transform_inverse ext self data kw = Inl e \<longrightarrow>
        (\<exists>msg. e = External msg \<and> applyDeformation ext
          (Image \<lparr>fdata = data\<lparr>flat := map (astype_float32 ext) (flat data)\<rparr>,
                  affine = ref_affine self\<rparr>) (warp self) = Inl msg))"
  by (auto simp: ConformedFnirtMapping_transform_def ConformedFnirtMapping_transform_inverse_def
      split: sum.splits)

theorem ConformedFnirtMapping_directions_witness:
  "ConformedFnirtMapping_transform
       \<lparr>ref_affine = example_identity, warp = DeformationField \<lparr>shape = [1], flat = [0]\<rparr>\<rparr>
       \<lparr>shape = [2], flat = [3, 4]\<rparr> [] =
     Inl (NotImplementedError
       ''Fnirt based mappings can currently only transform from template to subject space'')
   \<and> ConformedFnirtMapping_transform_inverse example_ext
       \<lparr>ref_affine = example_identity, warp = DeformationField \<lparr>shape = [1], flat = [0]\<rparr>\<rparr>
       \<lparr>shape = [2], flat = [3, 4]\<rparr> [] = Inr \<lparr>shape = [2], flat = [3, 4]\<rparr>"
proof -
  have "applyDeformation example_ext
          (Image \<lparr>fdata = \<lparr>shape = [2], flat = [3, 4]\<rparr>
                    \<lparr>flat := map (astype_float32 example_ext) (flat \<lparr>shape = [2], flat = [3, 4]\<rparr>)\<rparr>,
                  affine = ref_affine \<lparr>ref_affine = example_identity,
                    warp = DeformationField \<lparr>shape = [1], flat = [0]\<rparr>\<rparr>\<rparr>)
          (warp \<lparr>ref_affine = example_identity,
                 warp = DeformationField \<lparr>shape = [1], flat = [0]\<rparr>\<rparr>)
        = Inr \<lparr>shape = [2], flat = [3, 4]\<rparr>"
    by (simp add: example_ext_def)
  then show ?thesis
    using ConformedFnirtMapping_directions [of
        "\<lparr>ref_affine = example_identity, warp = DeformationField \<lparr>shape = [1], flat = [0]\<rparr>\<rparr>"
        "\<lparr>shape = [2], flat = [3, 4]\<rparr>" "[]" example_ext]
    by blast
qed

lemma bind_interpolation_given:
  "''interpolation'' \<notin> fst ` set kw \<Longrightarrow>
     bind_interpolation ((''interpolation'', i) # kw) = (i, kw)"
  by (simp add: bind_interpolation_def AList.delete_id)

lemma bind_interpolation_default:
  "''interpolation'' \<notin> fst ` set kw \<Longrightarrow> bind_interpolation kw = (PStr ''linear'', kw)"
proof -
  assume a: "''interpolation'' \<notin> fst ` set kw"
  then have "map_of kw ''interpolation'' = None"
    by (simp add: map_of_eq_None_iff)
  with a show ?thesis
    by (simp add: bind_interpolation_def AList.delete_id)
qed

text \<open>
  Claim C8. \<^verbatim>\<open>ConformedAffineMapping\<close> swaps the two directions of \<^verbatim>\<open>AffineMap\<close>: for all
  positional arguments and other keywords, \<^verbatim>\<open>transform\<close> called with \<^verbatim>\<open>interpolation=i\<close> is
  \<^verbatim>\<open>AffineMap.transform_inverse\<close> called with \<^verbatim>\<open>interp=i\<close>, and \<^verbatim>\<open>transform_inverse\<close> is
  \<^verbatim>\<open>AffineMap.transform\<close> with \<^verbatim>\<open>interp=i\<close>; without the keyword, \<^verbatim>\<open>i\<close> is \<^verbatim>\<open>'linear'\<close>.
\<close>

theorem ConformedAffineMapping_swaps_directions:
  assumes "''interpolation'' \<notin> fst ` set kw"
  shows "ConformedAffineMapping_transform ext self args ((''interpolation'', i) # kw) =
           call (AffineMap_transform_inverse ext self args (AList.update ''interp'' i kw))
       \<and> ConformedAffineMapping_transform_inverse ext self args ((''interpolation'', i) # kw) =
           call (AffineMap_transform ext self args (AList.update ''interp'' i kw))
       \<and> map_of (AList.update ''interp'' i kw) ''interp'' = Some i
       \<and> ConformedAffineMapping_transform ext self args kw =
           call (AffineMap_transform_inverse ext self args
                   (AList.update ''interp'' (PStr ''linear'') kw))
       \<and> ConformedAffineMapping_transform_inverse ext self args kw =
           call (AffineMap_transform ext self args (AList.update ''interp'' (PStr ''linear'') kw))"
  using bind_interpolation_given [OF assms, of i] bind_interpolation_default [OF assms]
  by (simp add: ConformedAffineMapping_transform_def ConformedAffineMapping_transform_inverse_def
      update_conv')

theorem ConformedAffineMapping_swaps_directions_witness:
  "ConformedAffineMapping_transform example_ext \<lparr>affine_matrix = example_identity\<rparr>
       [\<lparr>shape = [2], flat = [5, 6]\<rparr>] [(''interpolation'', PStr ''nearest'')] =
     Inr \<lparr>shape = [2], flat = [6, 5]\<rparr>
   \<and> ConformedAffineMapping_transform_inverse example_ext \<lparr>affine_matrix = example_identity\<rparr>
       [\<lparr>shape = [2], flat = [5, 6]\<rparr>] [(''interpolation'', PStr ''nearest'')] =
     Inr \<lparr>shape = [2], flat = [5, 6]\<rparr>
   \<and> ConformedAffineMapping_transform example_ext \<lparr>affine_matrix = example_identity\<rparr>
       [\<lparr>shape = [2], flat = [5, 6]\<rparr>] [] =
     Inr \<lparr>shape = [2], flat = [6, 5]\<rparr>"
  using ConformedAffineMapping_swaps_directions [of "[]" example_ext
      "\<lparr>affine_matrix = example_identity\<rparr>" "[\<lparr>shape = [2], flat = [5, 6]\<rparr>]"
      "PStr ''nearest''"]
  by (simp add: example_ext_def)

section \<open>The shape check of \<^verbatim>\<open>ItkMap.get_for_row\<close>\<close>












section \<open>Runs of the generated maps\<close>

subsection \<open>Assertions that a run keeps\<close>

named_theorems preserved_intros

lemma preserved_return [preserved_intros]: "preserved I (return x)"
  by (simp add: preserved_def return_def)

lemma preserved_raise [preserved_intros]: "preserved I (raise e)"
  by (simp add: preserved_def raise_def)

lemma preserved_lift [preserved_intros]: "preserved I (lift r)"
  by (simp add: preserved_def lift_def)

lemma preserved_op_exists [preserved_intros]: "preserved I (op_exists p)"
  by (simp add: preserved_def op_exists_def)

lemma preserved_np_load [preserved_intros]: "preserved I (np_load p)"
  by (simp add: preserved_def np_load_def split: option.split content.split)

lemma preserved_read [preserved_intros]: "preserved I (\<lambda>s. (g s, s))"
  by (simp add: preserved_def)

lemma preserved_bind [preserved_intros]:
  assumes "preserved I m" and "\<And>x. preserved I (f x)"
  shows "preserved I (bind m f)"
  using assms
  by (auto simp: preserved_def bind_def split: prod.split sum.split)

lemma preserved_if [preserved_intros]:
  "(c \<Longrightarrow> preserved I a) \<Longrightarrow> (\<not> c \<Longrightarrow> preserved I b) \<Longrightarrow> preserved I (if c then a else b)"
  by simp

lemma preserved_case_prod [preserved_intros]:
  "(\<And>a b. p = (a, b) \<Longrightarrow> preserved I (f a b)) \<Longrightarrow> preserved I (case p of (a, b) \<Rightarrow> f a b)"
  by (simp split: prod.split)

lemma preserved_bind_lift:
  assumes "\<And>x. r = Inr x \<Longrightarrow> preserved I (f x)"
  shows "preserved I (bind (lift r) f)"
  using assms by (cases r) (auto simp: preserved_def bind_def lift_def)

lemma preserved_case_option [preserved_intros]:
  "preserved I a \<Longrightarrow> (\<And>x. preserved I (f x)) \<Longrightarrow> preserved I (case v of None \<Rightarrow> a | Some x \<Rightarrow> f x)"
  by (simp split: option.split)

lemma preserved_case_gen_class [preserved_intros]:
  "preserved I a \<Longrightarrow> preserved I b \<Longrightarrow> preserved I c \<Longrightarrow>
     preserved I (case k of SynMap \<Rightarrow> a | SlrMap \<Rightarrow> b | AffMap \<Rightarrow> c)"
  by (simp split: gen_class.split)

lemma run_inv_start:
  "closed_under_append P \<Longrightarrow> present \<subseteq> dom (files s0) \<Longrightarrow> run_inv s0 present P s0"
  by (simp add: run_inv_def closed_under_append_def)

lemma run_inv_events:
  assumes "closed_under_append P" and "P new" and "run_inv s0 present P s"
    and "trace s' = trace s @ new" and "dom (files s) \<subseteq> dom (files s')"
  shows "run_inv s0 present P s'"
proof -
  from assms(3) obtain es where es: "trace s = trace s0 @ es" "P es"
    and sub: "present \<subseteq> dom (files s)"
    by (auto simp: run_inv_def)
  from assms(1,2) es(2) have "P (es @ new)"
    by (simp add: closed_under_append_def)
  moreover have "trace s' = trace s0 @ (es @ new)"
    using assms(4) es(1) by simp
  moreover have "present \<subseteq> dom (files s')"
    using sub assms(5) by (rule subset_trans)
  ultimately show ?thesis
    unfolding run_inv_def by blast
qed

lemma run_inv_same:
  assumes "run_inv s0 present P s" and "trace s' = trace s" and "files s' = files s"
  shows "run_inv s0 present P s'"
  using assms by (auto simp: run_inv_def)

lemma preserved_time [preserved_intros]: "preserved (run_inv s0 present P) (time ext)"
  by (auto simp: preserved_def time_def intro: run_inv_same)

lemma preserved_add_timing [preserved_intros]:
  "preserved (run_inv s0 present P) (add_timing ext k t)"
  by (auto simp: preserved_def add_timing_def bind_def time_def split: option.split
      intro: run_inv_same)

lemma preserved_emit:
  assumes "closed_under_append P" and "P [e]"
  shows "preserved (run_inv s0 present P) (emit e)"
  using assms by (auto simp: preserved_def emit_def intro: run_inv_events)

lemma snd_save_npy_json:
  "snd (save_npy_json p m q meta s) =
     s\<lparr>files := (files s)(npy_target p \<mapsto> NpyFile m, q \<mapsto> JsonFile meta),
       trace := trace s @ [Wrote_npy (npy_target p) m, Wrote_json q meta]\<rparr>"
  by (simp add: save_npy_json_def bind_def np_save_def write_json_def)

lemma snd_save_mapping_json:
  "snd (save_mapping_json m p q meta s) =
     s\<lparr>files := (files s)(p \<mapsto> MappingFile m, q \<mapsto> JsonFile meta),
       trace := trace s @ [Wrote_mapping p m, Wrote_json q meta]\<rparr>"
  by (simp add: save_mapping_json_def bind_def write_mapping_def write_json_def)

lemma preserved_save_npy_json:
  assumes "closed_under_append P" and "P [Wrote_npy (npy_target p) m, Wrote_json q meta]"
  shows "preserved (run_inv s0 present P) (save_npy_json p m q meta)"
  unfolding preserved_def
proof (intro allI impI)
  fix s assume "run_inv s0 present P s"
  then show "run_inv s0 present P (snd (save_npy_json p m q meta s))"
    by (rule run_inv_events [OF assms]) (auto simp: snd_save_npy_json)
qed

lemma preserved_save_mapping_json:
  assumes "closed_under_append P" and "P [Wrote_mapping p m, Wrote_json q meta]"
  shows "preserved (run_inv s0 present P) (save_mapping_json m p q meta)"
  unfolding preserved_def
proof (intro allI impI)
  fix s assume "run_inv s0 present P s"
  then show "run_inv s0 present P (snd (save_mapping_json m p q meta s))"
    by (rule run_inv_events [OF assms]) (auto simp: snd_save_mapping_json)
qed

lemma preserved_op_exists_present:
  assumes "p \<in> present" and "preserved (run_inv s0 present P) (f True)"
  shows "preserved (run_inv s0 present P) (bind (op_exists p) f)"
  unfolding preserved_def
proof (intro allI impI)
  fix s assume i: "run_inv s0 present P s"
  with assms(1) have "files s p \<noteq> None"
    by (auto simp: run_inv_def)
  then have "bind (op_exists p) f s = f True s"
    by (simp add: bind_def op_exists_def)
  with assms(2) i show "run_inv s0 present P (snd (bind (op_exists p) f s))"
    by (simp add: preserved_def)
qed

lemma bind_assoc: "bind (bind m f) g = bind m (\<lambda>x. bind (f x) g)"
  by (auto simp: bind_def fun_eq_iff split: prod.split sum.split)

lemma save_npy_json_fold:
  "bind (np_save p m) (\<lambda>_. bind (write_json q meta) f) = bind (save_npy_json p m q meta) f"
  by (simp add: save_npy_json_def bind_assoc)

lemma save_mapping_json_fold:
  "bind (write_mapping m p) (\<lambda>_. write_json q meta) = save_mapping_json m p q meta"
  by (simp add: save_mapping_json_def)

lemma prealign_preserved:
  assumes P: "closed_under_append P"
    and A: "get_fname ext afq r ''_prealign_from-DWI_to-MNI_xfm.npy'' \<in> present \<or>
       (P [Call_affine_registration] \<and>
        (\<forall>m. P [Wrote_npy (npy_target (get_fname ext afq r ''_prealign_from-DWI_to-MNI_xfm.npy'')) m,
                 Wrote_json (get_fname ext afq r ''_prealign_from-DWI_to-MNI_xfm.json'')
                   [(''type'', PStr ''rigid'')]]))"
  shows "preserved (run_inv s0 present P) (prealign ext self afq r)"
proof (cases "get_fname ext afq r ''_prealign_from-DWI_to-MNI_xfm.npy'' \<in> present")
  case True
  show ?thesis
    unfolding prealign_def Let_def
    by (rule preserved_op_exists_present [OF True]) (simp add: preserved_intros)
next
  case False
  with A have e: "P [Call_affine_registration]"
    and w: "\<And>m. P [Wrote_npy (npy_target (get_fname ext afq r ''_prealign_from-DWI_to-MNI_xfm.npy'')) m,
                 Wrote_json (get_fname ext afq r ''_prealign_from-DWI_to-MNI_xfm.json'')
                   [(''type'', PStr ''rigid'')]]"
    by auto
  show ?thesis
    unfolding prealign_def Let_def save_npy_json_fold
    by (intro preserved_intros preserved_emit [OF P e] preserved_save_npy_json [OF P w])
qed

lemma gen_mapping_preserved:
  assumes P: "closed_under_append P"
    and G: "P [Call_gen_mapping (cls self)]" "P [Call_syn_registration]"
      "P [Call_slr_registration]"
    and A: "get_fname ext afq r ''_prealign_from-DWI_to-MNI_xfm.npy'' \<in> present \<or>
       (P [Call_affine_registration] \<and>
        (\<forall>m. P [Wrote_npy (npy_target (get_fname ext afq r ''_prealign_from-DWI_to-MNI_xfm.npy'')) m,
                 Wrote_json (get_fname ext afq r ''_prealign_from-DWI_to-MNI_xfm.json'')
                   [(''type'', PStr ''rigid'')]]))"
  shows "preserved (run_inv s0 present P)
           (gen_mapping ext self afq r t_img t_sls s_img s_sls reg_prealign)"
  unfolding gen_mapping_def SynMap_gen_mapping_def SlrMap_gen_mapping_def AffMap_gen_mapping_def
  by (intro preserved_intros preserved_emit [OF P] G prealign_preserved [OF P A])

lemma get_fnames_meta:
  "get_fnames ext x afq r = Inr (mf, mj) \<Longrightarrow> mj = get_fname ext afq r ''_mapping_reg'' @ ''.json''"
  by (auto simp: get_fnames_def Let_def split: sum.splits)

text \<open>A run of \<^verbatim>\<open>get_for_row\<close> in which the registration may take place.\<close>

lemma get_for_row_preserved:
  assumes P: "closed_under_append P"
    and G: "P [Call_gen_mapping (cls self)]" "P [Call_syn_registration]"
      "P [Call_slr_registration]"
    and A: "get_fname ext afq r ''_prealign_from-DWI_to-MNI_xfm.npy'' \<in> present \<or>
       (P [Call_affine_registration] \<and>
        (\<forall>m. P [Wrote_npy (npy_target (get_fname ext afq r ''_prealign_from-DWI_to-MNI_xfm.npy'')) m,
                 Wrote_json (get_fname ext afq r ''_prealign_from-DWI_to-MNI_xfm.json'')
                   [(''type'', PStr ''rigid'')]]))"
    and W: "\<And>p m. P [Wrote_mapping p m,
                 Wrote_json (get_fname ext afq r ''_mapping_reg'' @ ''.json'')
                   [(''type'', PStr ''displacementfield'')]]"
  shows "preserved (run_inv s0 present P) (get_for_row ext self afq r)"
  unfolding get_for_row_def save_mapping_json_fold
  apply (intro preserved_bind_lift preserved_intros prealign_preserved [OF P A]
      gen_mapping_preserved [OF P G A] preserved_save_mapping_json [OF P])
  apply (auto dest!: get_fnames_meta simp: W)
  done

text \<open>A run of \<^verbatim>\<open>get_for_row\<close> that finds the mapping file.\<close>

lemma get_for_row_preserved_cached:
  assumes P: "closed_under_append P"
    and M: "\<And>x mf mj. getattr self ''extension'' = Inr x \<Longrightarrow>
               get_fnames ext x afq r = Inr (mf, mj) \<Longrightarrow> mf \<in> present"
    and A: "\<And>up. getattr self ''use_prealign'' = Inr up \<Longrightarrow> truthy up \<Longrightarrow>
       get_fname ext afq r ''_prealign_from-DWI_to-MNI_xfm.npy'' \<in> present \<or>
       (P [Call_affine_registration] \<and>
        (\<forall>m. P [Wrote_npy (npy_target (get_fname ext afq r ''_prealign_from-DWI_to-MNI_xfm.npy'')) m,
                 Wrote_json (get_fname ext afq r ''_prealign_from-DWI_to-MNI_xfm.json'')
                   [(''type'', PStr ''rigid'')]]))"
  shows "preserved (run_inv s0 present P) (get_for_row ext self afq r)"
  unfolding get_for_row_def save_mapping_json_fold
  apply (intro preserved_bind_lift preserved_op_exists_present preserved_intros
      prealign_preserved [OF P])
  using M A apply blast+
  done

lemma sidecars_follow_append:
  "sidecars_follow pj mj a \<Longrightarrow> sidecars_follow pj mj b \<Longrightarrow> sidecars_follow pj mj (a @ b)"
  by (induction pj mj a rule: sidecars_follow.induct)
     (auto split: list.splits event.splits)

lemma closed_sidecars: "closed_under_append (sidecars_follow pj mj)"
  by (simp add: closed_under_append_def sidecars_follow_append)

lemma closed_no_gen: "closed_under_append (\<lambda>es. \<not> list_ex is_gen_mapping es)"
  by (simp add: closed_under_append_def)

lemma closed_no_affine: "closed_under_append (\<lambda>es. Call_affine_registration \<notin> set es)"
  by (simp add: closed_under_append_def)

lemma closed_nothing: "closed_under_append (\<lambda>es. es = [])"
  by (simp add: closed_under_append_def)

text \<open>From an assertion kept by a run to the events the run added.\<close>

lemma preserved_new_events:
  assumes "preserved (run_inv s present P) m" and "closed_under_append P"
    and "present \<subseteq> dom (files s)"
  shows "P (new_events s (snd (m s)))" and "present \<subseteq> dom (files (snd (m s)))"
proof -
  have "run_inv s present P (snd (m s))"
    using assms by (simp add: preserved_def run_inv_start)
  then show "P (new_events s (snd (m s)))" and "present \<subseteq> dom (files (snd (m s)))"
    by (auto simp: run_inv_def new_events_def)
qed

subsection \<open>Runs that return\<close>

lemma bind_Inr_E:
  assumes "bind m f s = (Inr x, s')"
  obtains y s1 where "m s = (Inr y, s1)" and "f y s1 = (Inr x, s')"
  using assms by (auto simp: bind_def split: prod.splits sum.splits)

lemma lift_Inr_E:
  assumes "lift r s = (Inr x, s')"
  obtains "r = Inr x" and "s' = s"
  using assms by (auto simp: lift_def)

lemma return_Inr_E:
  assumes "return y s = (Inr x, s')"
  obtains "x = y" and "s' = s"
  using assms by (auto simp: return_def)

text \<open>Files are never removed.\<close>

lemma closed_anything: "closed_under_append (\<lambda>es. True)"
  by (simp add: closed_under_append_def)

lemma prealign_files_grow: "dom (files s) \<subseteq> dom (files (snd (prealign ext self afq r s)))"
  by (rule preserved_new_events(2) [OF prealign_preserved [OF closed_anything] closed_anything])
     simp_all

lemma gen_mapping_files_grow:
  "dom (files s) \<subseteq> dom (files (snd (gen_mapping ext self afq r t ts si ss pre s)))"
  by (rule preserved_new_events(2) [OF gen_mapping_preserved [OF closed_anything] closed_anything])
     simp_all

lemma get_for_row_files_grow:
  "dom (files s) \<subseteq> dom (files (snd (get_for_row ext self afq r s)))"
  by (rule preserved_new_events(2) [OF get_for_row_preserved [OF closed_anything] closed_anything])
     simp_all

lemma prealign_cached:
  assumes "files s (get_fname ext afq r ''_prealign_from-DWI_to-MNI_xfm.npy'') \<noteq> None"
  shows "prealign ext self afq r s = (Inr (get_fname ext afq r ''_prealign_from-DWI_to-MNI_xfm.npy''), s)"
  using assms by (auto simp: prealign_def bind_def op_exists_def return_def Let_def)

lemma prealign_returns:
  assumes "prealign ext self afq r s = (Inr f, s')"
  shows "f = get_fname ext afq r ''_prealign_from-DWI_to-MNI_xfm.npy''"
  using assms unfolding prealign_def Let_def
  by (elim bind_Inr_E return_Inr_E) simp

lemma np_load_Inr_E:
  assumes "np_load p s = (Inr m, s')"
  obtains "files s p = Some (NpyFile m)" and "s' = s"
  using assms by (auto simp: np_load_def split: option.splits content.splits)

text \<open>After a run that returns with a true \<^verbatim>\<open>use_prealign\<close>, the prealign file exists.\<close>

lemma prealign_block_success:
  assumes "(if truthy up
            then bind (prealign ext self afq r) (\<lambda>f. bind (np_load f) (\<lambda>m. return (Some m)))
            else return None) s = (Inr pre, s1)"
    and "truthy up"
  shows "files s1 (get_fname ext afq r ''_prealign_from-DWI_to-MNI_xfm.npy'') \<noteq> None"
  using assms
  by (auto elim!: bind_Inr_E np_load_Inr_E return_Inr_E dest!: prealign_returns)

lemma prealign_block_files_grow:
  "dom (files s) \<subseteq> dom (files (snd ((if truthy up
            then bind (prealign ext self afq r) (\<lambda>f. bind (np_load f) (\<lambda>m. return (Some m)))
            else return None) s)))"
proof -
  have "preserved (run_inv s (dom (files s)) (\<lambda>es. True))
          (if truthy up
            then bind (prealign ext self afq r) (\<lambda>f. bind (np_load f) (\<lambda>m. return (Some m)))
            else return None)"
    by (intro preserved_intros prealign_preserved [OF closed_anything]) simp
  from preserved_new_events(2) [OF this closed_anything] show ?thesis
    by simp
qed

text \<open>\<^verbatim>\<open>get_for_row\<close> as the sequence of its phases.\<close>

lemma get_for_row_blocks:
  "get_for_row ext self afq r =
     bind (lift (getattr self ''extension'')) (\<lambda>x.
     bind (lift (get_fnames ext x afq r)) (\<lambda>y.
     bind (lift (getattr self ''use_prealign'')) (\<lambda>up.
     bind (prealign_block ext self afq r up) (\<lambda>pre.
     bind (registration_block ext self afq r (fst y) (snd y) pre) (\<lambda>_.
     load_block ext self afq r (fst y) pre)))))"
  unfolding get_for_row_def prealign_block_def registration_block_def load_block_def
    save_mapping_json_fold bind_assoc split_def
  by (rule refl)

lemma prealign_block_returns:
  assumes "prealign_block ext self afq r up s = (Inr pre, s1)" and "truthy up"
  shows "files s1 (get_fname ext afq r ''_prealign_from-DWI_to-MNI_xfm.npy'') \<noteq> None"
  using assms unfolding prealign_block_def by (rule prealign_block_success)

lemma prealign_block_cached:
  assumes "truthy up \<Longrightarrow> files s (get_fname ext afq r ''_prealign_from-DWI_to-MNI_xfm.npy'') \<noteq> None"
  shows "snd (prealign_block ext self afq r up s) = s"
proof (cases "truthy up")
  case True
  with assms show ?thesis
    by (simp add: prealign_block_def bind_def prealign_cached np_load_def return_def
        split: option.split content.split)
next
  case False
  then show ?thesis
    by (simp add: prealign_block_def return_def)
qed

lemma registration_block_cached:
  assumes "files s mf \<noteq> None"
  shows "registration_block ext self afq r mf mj pre s = (Inr (), s)"
  using assms by (auto simp: registration_block_def bind_def op_exists_def return_def)

lemma registration_block_files_grow:
  "dom (files s) \<subseteq> dom (files (snd (registration_block ext self afq r mf mj pre s)))"
proof -
  have "preserved (run_inv s (dom (files s)) (\<lambda>es. True))
          (registration_block ext self afq r mf mj pre)"
    unfolding registration_block_def
    by (intro preserved_intros gen_mapping_preserved [OF closed_anything]
        preserved_save_mapping_json [OF closed_anything]) simp_all
  from preserved_new_events(2) [OF this closed_anything] show ?thesis
    by simp
qed

lemma save_mapping_json_Inr_E:
  assumes "save_mapping_json m p q meta s = (Inr x, s')"
  obtains "files s' p \<noteq> None"
  using assms
  by (auto simp: save_mapping_json_def bind_def write_mapping_def write_json_def)

lemma registration_block_returns:
  assumes "registration_block ext self afq r mf mj pre s = (Inr u, s')"
  shows "files s' mf \<noteq> None"
proof (cases "files s mf = None")
  case False
  with assms show ?thesis
    by (simp add: registration_block_cached)
next
  case True
  then have "registration_block ext self afq r mf mj pre s =
      bind (lift (call (reg_img ext afq (reg_template afq) False r))) (\<lambda>(t_img, t_sls).
      bind (lift (call (reg_img ext afq (reg_subject afq) True r))) (\<lambda>(s_img, s_sls).
      bind (time ext) (\<lambda>start_time.
      bind (gen_mapping ext self afq r t_img t_sls s_img s_sls pre) (\<lambda>m.
      bind (add_timing ext ''Registration'' start_time) (\<lambda>_.
      save_mapping_json m mf mj [(''type'', PStr ''displacementfield'')]))))) s"
    by (simp add: registration_block_def bind_def op_exists_def)
  with assms show ?thesis
    by (auto elim!: bind_Inr_E save_mapping_json_Inr_E split: prod.splits)
qed

lemma load_block_state: "snd (load_block ext self afq r mf pre s) = s"
  by (cases "getattr self ''use_prealign''"; cases pre)
     (auto simp: load_block_def bind_def lift_def raise_def return_def
       split: sum.splits prod.splits)

lemma load_block_returns:
  assumes "load_block ext self afq r mf pre s = (Inr m, s')"
  shows "\<exists>pinv. read_mapping ext (files s') (DispFile mf) (dwi_file r) (reg_template_img afq) pinv
           = Inr m"
proof -
  have "s' = s"
    using load_block_state [of ext self afq r mf pre s] assms by simp
  with assms show ?thesis
    unfolding load_block_def
    by (auto elim!: bind_Inr_E)
qed

lemma snd_bind_same:
  assumes "snd (m s) = s" and "\<And>x. snd (f x s) = s"
  shows "snd (bind m f s) = s"
  using assms by (cases "m s") (auto simp: bind_def split: sum.splits)

lemma bind_lift_Inr: "bind (lift (Inr x)) f = f x"
  by (simp add: bind_def lift_def fun_eq_iff)

text \<open>A run of \<^verbatim>\<open>get_for_row\<close> that returns leaves both files behind it.\<close>

lemma get_for_row_returns:
  assumes "get_for_row ext self afq r s = (Inr m, s')"
  obtains x mf mj up where "getattr self ''extension'' = Inr x"
    and "get_fnames ext x afq r = Inr (mf, mj)"
    and "getattr self ''use_prealign'' = Inr up"
    and "files s' mf \<noteq> None"
    and "truthy up \<Longrightarrow> files s' (get_fname ext afq r ''_prealign_from-DWI_to-MNI_xfm.npy'') \<noteq> None"
    and "\<exists>pinv. read_mapping ext (files s') (DispFile mf) (dwi_file r) (reg_template_img afq) pinv
           = Inr m"
proof -
  from assms obtain x y up pre s1 u s2 where
    1: "getattr self ''extension'' = Inr x"
    and 2: "get_fnames ext x afq r = Inr y"
    and 3: "getattr self ''use_prealign'' = Inr up"
    and 4: "prealign_block ext self afq r up s = (Inr pre, s1)"
    and 5: "registration_block ext self afq r (fst y) (snd y) pre s1 = (Inr u, s2)"
    and 6: "load_block ext self afq r (fst y) pre s2 = (Inr m, s')"
    unfolding get_for_row_blocks
    by (elim bind_Inr_E lift_Inr_E) simp
  have 7: "s' = s2"
    using load_block_state [of ext self afq r "fst y" pre s2] 6 by simp
  have 8: "files s2 (fst y) \<noteq> None"
    using 5 by (rule registration_block_returns)
  have 9: "files s2 (get_fname ext afq r ''_prealign_from-DWI_to-MNI_xfm.npy'') \<noteq> None"
    if "truthy up"
  proof -
    have "files s1 (get_fname ext afq r ''_prealign_from-DWI_to-MNI_xfm.npy'') \<noteq> None"
      using 4 that by (rule prealign_block_returns)
    moreover have "dom (files s1) \<subseteq> dom (files s2)"
      using registration_block_files_grow [of s1 ext self afq r "fst y" "snd y" pre] 5 by simp
    ultimately show ?thesis
      by auto
  qed
  show ?thesis
    using that [of x "fst y" "snd y" up] 1 2 3 7 8 9 load_block_returns [OF 6]
    by simp
qed

text \<open>With both files on disk a run changes nothing.\<close>

lemma get_for_row_cached_unchanged:
  assumes 1: "getattr self ''extension'' = Inr x"
    and 2: "get_fnames ext x afq r = Inr (mf, mj)"
    and 4: "files s mf \<noteq> None"
    and 5: "\<And>up. getattr self ''use_prealign'' = Inr up \<Longrightarrow> truthy up \<Longrightarrow>
              files s (get_fname ext afq r ''_prealign_from-DWI_to-MNI_xfm.npy'') \<noteq> None"
  shows "snd (get_for_row ext self afq r s) = s"
proof (cases "getattr self ''use_prealign''")
  case (Inl e)
  then show ?thesis
    by (simp add: get_for_row_blocks 1 2 bind_lift_Inr) (simp add: bind_def lift_def)
next
  case (Inr up)
  then have "get_for_row ext self afq r s =
      bind (prealign_block ext self afq r up) (\<lambda>pre.
      bind (registration_block ext self afq r mf mj pre) (\<lambda>_.
      load_block ext self afq r mf pre)) s"
    by (simp add: get_for_row_blocks 1 2 bind_lift_Inr)
  then show ?thesis
    by (simp add: snd_bind_same prealign_block_cached 5 [OF Inr] registration_block_cached 4
        load_block_state)
qed

lemma get_for_row_rerun:
  assumes "get_for_row ext self afq r s = (Inr m, s')"
  shows "snd (get_for_row ext self afq r s') = s'"
proof -
  from assms obtain x mf mj up where
    1: "getattr self ''extension'' = Inr x"
    and 2: "get_fnames ext x afq r = Inr (mf, mj)"
    and 3: "getattr self ''use_prealign'' = Inr up"
    and 4: "files s' mf \<noteq> None"
    and 5: "truthy up \<Longrightarrow>
              files s' (get_fname ext afq r ''_prealign_from-DWI_to-MNI_xfm.npy'') \<noteq> None"
    by (rule get_for_row_returns) blast
  have "get_for_row ext self afq r s' =
      bind (prealign_block ext self afq r up) (\<lambda>pre.
      bind (registration_block ext self afq r mf mj pre) (\<lambda>_.
      load_block ext self afq r mf pre)) s'"
    by (simp add: get_for_row_blocks 1 2 3 bind_lift_Inr)
  then show ?thesis
    by (simp add: snd_bind_same prealign_block_cached 5 registration_block_cached 4
        load_block_state)
qed

subsection \<open>The example runs\<close>

lemmas run_defs = bind_def return_def raise_def lift_def emit_def op_exists_def time_def
  np_save_def np_load_def write_json_def write_mapping_def add_timing_def get_fnames_def
  prealign_def gen_mapping_def SynMap_gen_mapping_def SlrMap_gen_mapping_def
  AffMap_gen_mapping_def get_for_row_def getattr_def npy_target_def ends_with_def Let_def

lemmas example_defs = example_ext_def example_afq_def example_row_def example_state_def
  example_syn_def example_aff_def SynMap_init_def SlrMap_init_def AffMap_init_def
  example_read_mapping_def

text \<open>The run of \<^verbatim>\<open>AffMap().get_for_row\<close> on the example, from a directory without artifacts.\<close>

lemma example_aff_run:
  "\<exists>s'. get_for_row example_ext example_aff example_afq example_row example_state =
            (Inr (AffineMapping \<lparr>affine_matrix = example_identity\<rparr>), s')
        \<and> trace s' =
            [Call_gen_mapping AffMap, Call_affine_registration,
             Wrote_npy ''out/A_prealign_from-DWI_to-MNI_xfm.npy'' example_identity,
             Wrote_json ''out/A_prealign_from-DWI_to-MNI_xfm.json'' [(''type'', PStr ''rigid'')],
             Wrote_mapping ''out/A_mapping_from-DWI_to_MNI_xfm.npy''
               (AffineMapping \<lparr>affine_matrix = example_identity\<rparr>),
             Wrote_json ''out/A_mapping_reg.json'' [(''type'', PStr ''displacementfield'')]]"
  by (simp add: run_defs example_defs example_template_def)

text \<open>The run of \<^verbatim>\<open>SynMap().get_for_row\<close> on the example, from a directory without artifacts.\<close>

lemma example_syn_run:
  "new_events example_state
      (snd (get_for_row example_ext example_syn example_afq example_row example_state)) =
     [Call_affine_registration,
      Wrote_npy ''out/A_prealign_from-DWI_to-MNI_xfm.npy'' example_identity,
      Wrote_json ''out/A_prealign_from-DWI_to-MNI_xfm.json'' [(''type'', PStr ''rigid'')],
      Call_gen_mapping SynMap, Call_syn_registration,
      Wrote_mapping ''out/A_mapping_from-DWI_to_MNI_xfm.nii.gz''
        (ExternalMapping \<lparr>dm_methods = example_methods,
           dm_field = \<lparr>shape = [1, 1, 2], flat = [0, 1]\<rparr>,
           codomain_world2grid = example_identity\<rparr>),
      Wrote_json ''out/A_mapping_reg.json'' [(''type'', PStr ''displacementfield'')]]"
  by (simp add: run_defs example_defs example_template_def new_events_def)

lemma example_read_mapping_contract: "read_mapping_contract example_ext"
  by (auto simp: read_mapping_contract_def example_ext_def example_read_mapping_def exposes_def
      example_methods_def ConformedAffineMapping_methods_def
      split: disp_arg.splits option.splits content.splits mapping.splits)

lemma example_itk_run:
  "ItkMap_get_for_row example_ext example_itk_found example_afq example_row (example_warp_fs 2) =
     Inr (ExternalMapping
       \<lparr>dm_methods = example_methods,
        dm_field = \<lparr>shape = [1, 1, 2, 3, 2], flat = [5, 0, 0, 0, 0, 0, 0, 0, 7, 0, 0, 0]\<rparr>,
        codomain_world2grid = example_identity\<rparr>)"
  by (simp add: ItkMap_get_for_row_def lookup2_def example_itk_found_def example_itk_def
      example_defs example_warp_fs_def example_h5_def h5_get_def trunc_int_def np_ne_def
      np_any_def np_reshape_def np_zeros_def set_last_axis0_def their_prealign_of_def
      example_template_def Let_def)

section \<open>Caching of the generated artifacts\<close>

lemma get_for_row_trace_extends:
  "trace (snd (get_for_row ext self afq r s)) =
     trace s @ new_events s (snd (get_for_row ext self afq r s))"
proof -
  have "preserved (run_inv s {} (\<lambda>es. True)) (get_for_row ext self afq r)"
    by (intro get_for_row_preserved closed_anything) simp_all
  then have "run_inv s {} (\<lambda>es. True) (snd (get_for_row ext self afq r s))"
    by (simp add: preserved_def run_inv_start closed_anything)
  then show ?thesis
    by (auto simp: run_inv_def new_events_def)
qed

lemma prealign_trace_extends:
  "trace (snd (prealign ext self afq r s)) =
     trace s @ new_events s (snd (prealign ext self afq r s))"
proof -
  have "preserved (run_inv s {} (\<lambda>es. True)) (prealign ext self afq r)"
    by (intro prealign_preserved closed_anything) simp_all
  then have "run_inv s {} (\<lambda>es. True) (snd (prealign ext self afq r s))"
    by (simp add: preserved_def run_inv_start closed_anything)
  then show ?thesis
    by (auto simp: run_inv_def new_events_def)
qed

lemma get_for_row_cached_no_registration:
  assumes "getattr self ''extension'' = Inr x" and "get_fnames ext x afq r = Inr (mf, mj)"
    and "files s mf \<noteq> None"
  shows "\<not> list_ex is_gen_mapping (new_events s (snd (get_for_row ext self afq r s)))"
proof -
  have "preserved (run_inv s {mf} (\<lambda>es. \<not> list_ex is_gen_mapping es))
          (get_for_row ext self afq r)"
    using assms(1,2) by (intro get_for_row_preserved_cached closed_no_gen) auto
  from preserved_new_events(1) [OF this closed_no_gen] assms(3) show ?thesis
    by auto
qed

lemma get_for_row_prealigned_no_affine:
  assumes "files s (get_fname ext afq r ''_prealign_from-DWI_to-MNI_xfm.npy'') \<noteq> None"
  shows "Call_affine_registration \<notin> set (new_events s (snd (get_for_row ext self afq r s)))"
proof -
  have "preserved (run_inv s {get_fname ext afq r ''_prealign_from-DWI_to-MNI_xfm.npy''}
            (\<lambda>es. Call_affine_registration \<notin> set es))
          (get_for_row ext self afq r)"
    by (intro get_for_row_preserved closed_no_affine) auto
  from preserved_new_events(1) [OF this closed_no_affine] assms show ?thesis
    by auto
qed

text \<open>
  Claim C3. For an object of any of the generated-map classes and every row, with \<open>mf\<close>
  the name of the mapping file: if \<open>mf\<close> exists, \<^verbatim>\<open>get_for_row\<close> neither enters
  \<^verbatim>\<open>gen_mapping\<close> nor calls a registration routine nor writes a mapping; if the prealign
  \<^verbatim>\<open>.npy\<close> file exists, \<^verbatim>\<open>prealign\<close> returns its name and changes nothing, and
  \<^verbatim>\<open>get_for_row\<close> calls no affine registration. So a registration is run only when its
  file is absent. With the mapping file on disk, and the prealign file too when
  \<^verbatim>\<open>use_prealign\<close> is true, a run changes nothing at all. A run that returns leaves the
  mapping file on disk and returns what \<^verbatim>\<open>read_mapping\<close> loads from it, and a second run
  from there changes nothing: it registers nothing and writes nothing.
\<close>

theorem cached_artifacts_are_reused:
  assumes "getattr self ''extension'' = Inr x" and "get_fnames ext x afq r = Inr (mf, mj)"
  shows "(files s mf \<noteq> None \<longrightarrow>
            \<not> list_ex is_gen_mapping (new_events s (snd (get_for_row ext self afq r s))))
     \<and> (files s (get_fname ext afq r ''_prealign_from-DWI_to-MNI_xfm.npy'') \<noteq> None \<longrightarrow>
            prealign ext self afq r s =
              (Inr (get_fname ext afq r ''_prealign_from-DWI_to-MNI_xfm.npy''), s)
          \<and> Call_affine_registration \<notin> set (new_events s (snd (get_for_row ext self afq r s))))
     \<and> (files s mf \<noteq> None
          \<and> (\<forall>up. getattr self ''use_prealign'' = Inr up \<and> truthy up \<longrightarrow>
                 files s (get_fname ext afq r ''_prealign_from-DWI_to-MNI_xfm.npy'') \<noteq> None) \<longrightarrow>
            snd (get_for_row ext self afq r s) = s)
     \<and> trace (snd (get_for_row ext self afq r s)) =
          trace s @ new_events s (snd (get_for_row ext self afq r s))
     \<and> (\<forall>m s'. get_for_row ext self afq r s = (Inr m, s') \<longrightarrow>
            files s' mf \<noteq> None
          \<and> (\<exists>pinv. read_mapping ext (files s') (DispFile mf) (dwi_file r)
                       (reg_template_img afq) pinv = Inr m)
          \<and> snd (get_for_row ext self afq r s') = s')"
proof (intro conjI impI allI)
  assume "files s mf \<noteq> None"
  with assms show "\<not> list_ex is_gen_mapping (new_events s (snd (get_for_row ext self afq r s)))"
    by (rule get_for_row_cached_no_registration)
next
  assume p: "files s (get_fname ext afq r ''_prealign_from-DWI_to-MNI_xfm.npy'') \<noteq> None"
  then show "prealign ext self afq r s =
      (Inr (get_fname ext afq r ''_prealign_from-DWI_to-MNI_xfm.npy''), s)"
    by (rule prealign_cached)
  from p show "Call_affine_registration \<notin> set (new_events s (snd (get_for_row ext self afq r s)))"
    by (rule get_for_row_prealigned_no_affine)
next
  assume "files s mf \<noteq> None
      \<and> (\<forall>up. getattr self ''use_prealign'' = Inr up \<and> truthy up \<longrightarrow>
             files s (get_fname ext afq r ''_prealign_from-DWI_to-MNI_xfm.npy'') \<noteq> None)"
  with assms show "snd (get_for_row ext self afq r s) = s"
    by (intro get_for_row_cached_unchanged) blast+
next
  show "trace (snd (get_for_row ext self afq r s)) =
          trace s @ new_events s (snd (get_for_row ext self afq r s))"
    by (rule get_for_row_trace_extends)
next
  fix m s' assume run: "get_for_row ext self afq r s = (Inr m, s')"
  from run show "snd (get_for_row ext self afq r s') = s'"
    by (rule get_for_row_rerun)
  from run assms show "files s' mf \<noteq> None"
    by (auto elim!: get_for_row_returns)
  from run assms show "\<exists>pinv. read_mapping ext (files s') (DispFile mf) (dwi_file r)
                       (reg_template_img afq) pinv = Inr m"
    by (auto elim!: get_for_row_returns)
qed

theorem cached_artifacts_are_reused_witness:
  "\<not> list_ex is_gen_mapping (new_events example_cached_state
        (snd (get_for_row example_ext example_syn example_afq example_row example_cached_state)))
   \<and> prealign example_ext example_syn example_afq example_row example_cached_state =
        (Inr ''out/A_prealign_from-DWI_to-MNI_xfm.npy'', example_cached_state)
   \<and> Call_affine_registration \<notin> set (new_events example_cached_state
        (snd (get_for_row example_ext example_syn example_afq example_row example_cached_state)))
   \<and> snd (get_for_row example_ext example_syn example_afq example_row example_cached_state)
        = example_cached_state
   \<and> (\<exists>s'. get_for_row example_ext example_aff example_afq example_row example_state =
               (Inr (AffineMapping \<lparr>affine_matrix = example_identity\<rparr>), s')
           \<and> files s' ''out/A_mapping_from-DWI_to_MNI_xfm.npy'' \<noteq> None
           \<and> snd (get_for_row example_ext example_aff example_afq example_row s') = s')"
proof -
  have x: "getattr example_syn ''extension'' = Inr (PStr ''.nii.gz'')"
    by (simp add: getattr_def example_defs)
  have f: "get_fnames example_ext (PStr ''.nii.gz'') example_afq example_row =
      Inr (''out/A_mapping_from-DWI_to_MNI_xfm.nii.gz'', ''out/A_mapping_reg.json'')"
    by (simp add: get_fnames_def example_defs)
  have m: "files example_cached_state ''out/A_mapping_from-DWI_to_MNI_xfm.nii.gz'' \<noteq> None"
    by (simp add: example_cached_state_def)
  have n: "get_fname example_ext example_afq example_row ''_prealign_from-DWI_to-MNI_xfm.npy''
             = ''out/A_prealign_from-DWI_to-MNI_xfm.npy''"
    by (simp add: example_defs)
  have p: "files example_cached_state ''out/A_prealign_from-DWI_to-MNI_xfm.npy'' \<noteq> None"
    by (simp add: example_cached_state_def)
  have x': "getattr example_aff ''extension'' = Inr (PStr ''.npy'')"
    by (simp add: getattr_def example_defs)
  have f': "get_fnames example_ext (PStr ''.npy'') example_afq example_row =
      Inr (''out/A_mapping_from-DWI_to_MNI_xfm.npy'', ''out/A_mapping_reg.json'')"
    by (simp add: get_fnames_def example_defs)
  from example_aff_run obtain s' where
    r: "get_for_row example_ext example_aff example_afq example_row example_state =
          (Inr (AffineMapping \<lparr>affine_matrix = example_identity\<rparr>), s')"
    by blast
  show ?thesis
    using cached_artifacts_are_reused [OF x f, of example_cached_state]
      cached_artifacts_are_reused [OF x' f', of example_state] m n p r
    by auto
qed

section \<open>Metadata sidecars\<close>

lemma sidecars_preserved:
  "preserved (run_inv s {}
      (sidecars_follow (get_fname ext afq r ''_prealign_from-DWI_to-MNI_xfm.json'')
         (get_fname ext afq r ''_mapping_reg'' @ ''.json'')))
     (get_for_row ext self afq r)"
  by (intro get_for_row_preserved closed_sidecars) simp_all

lemma sidecars_preserved_prealign:
  "preserved (run_inv s {}
      (sidecars_follow (get_fname ext afq r ''_prealign_from-DWI_to-MNI_xfm.json'') mj))
     (prealign ext self afq r)"
  by (intro prealign_preserved closed_sidecars) simp_all

text \<open>
  Claim C7. In every run of \<^verbatim>\<open>get_for_row\<close> and of \<^verbatim>\<open>prealign\<close>, for an object of any
  generated-map class, each artifact written is directly followed by its JSON sidecar:
  the prealign matrix by the file \<^verbatim>\<open>..._prealign_from-DWI_to-MNI_xfm.json\<close> holding
  exactly \<^verbatim>\<open>{"type": "rigid"}\<close>, the mapping by the file \<^verbatim>\<open>..._mapping_reg.json\<close> holding
  exactly \<^verbatim>\<open>{"type": "displacementfield"}\<close>.
\<close>

theorem artifacts_are_written_with_sidecars:
  "sidecars_follow (get_fname ext afq r ''_prealign_from-DWI_to-MNI_xfm.json'')
       (get_fname ext afq r ''_mapping_reg'' @ ''.json'')
       (new_events s (snd (get_for_row ext self afq r s)))
   \<and> trace (snd (get_for_row ext self afq r s)) =
        trace s @ new_events s (snd (get_for_row ext self afq r s))
   \<and> sidecars_follow (get_fname ext afq r ''_prealign_from-DWI_to-MNI_xfm.json'') mj
        (new_events s (snd (prealign ext self afq r s)))
   \<and> trace (snd (prealign ext self afq r s)) =
        trace s @ new_events s (snd (prealign ext self afq r s))"
  using preserved_new_events(1) [OF sidecars_preserved closed_sidecars, of s ext afq r self]
    preserved_new_events(1) [OF sidecars_preserved_prealign closed_sidecars, of s ext afq r mj self]
    get_for_row_trace_extends [of ext self afq r s] prealign_trace_extends [of ext self afq r s]
  by simp

theorem artifacts_are_written_with_sidecars_witness:
  "sidecars_follow ''out/A_prealign_from-DWI_to-MNI_xfm.json'' ''out/A_mapping_reg.json''
     [Call_affine_registration,
      Wrote_npy ''out/A_prealign_from-DWI_to-MNI_xfm.npy'' example_identity,
      Wrote_json ''out/A_prealign_from-DWI_to-MNI_xfm.json'' [(''type'', PStr ''rigid'')],
      Call_gen_mapping SynMap, Call_syn_registration,
      Wrote_mapping ''out/A_mapping_from-DWI_to_MNI_xfm.nii.gz''
        (ExternalMapping \<lparr>dm_methods = example_methods,
           dm_field = \<lparr>shape = [1, 1, 2], flat = [0, 1]\<rparr>,
           codomain_world2grid = example_identity\<rparr>),
      Wrote_json ''out/A_mapping_reg.json'' [(''type'', PStr ''displacementfield'')]]
   \<and> trace (snd (get_for_row example_ext example_syn example_afq example_row example_state)) =
     [Call_affine_registration,
      Wrote_npy ''out/A_prealign_from-DWI_to-MNI_xfm.npy'' example_identity,
      Wrote_json ''out/A_prealign_from-DWI_to-MNI_xfm.json'' [(''type'', PStr ''rigid'')],
      Call_gen_mapping SynMap, Call_syn_registration,
      Wrote_mapping ''out/A_mapping_from-DWI_to_MNI_xfm.nii.gz''
        (ExternalMapping \<lparr>dm_methods = example_methods,
           dm_field = \<lparr>shape = [1, 1, 2], flat = [0, 1]\<rparr>,
           codomain_world2grid = example_identity\<rparr>),
      Wrote_json ''out/A_mapping_reg.json'' [(''type'', PStr ''displacementfield'')]]"
proof -
  have n: "get_fname example_ext example_afq example_row ''_prealign_from-DWI_to-MNI_xfm.json''
             = ''out/A_prealign_from-DWI_to-MNI_xfm.json''"
    "get_fname example_ext example_afq example_row ''_mapping_reg'' @ ''.json''
             = ''out/A_mapping_reg.json''"
    by (simp_all add: example_defs)
  have t: "trace example_state = []"
    by (simp add: example_state_def)
  show ?thesis
    using artifacts_are_written_with_sidecars [of example_ext example_afq example_row
        example_state example_syn]
    unfolding example_syn_run n t
    by simp
qed

section \<open>\<^verbatim>\<open>SlrMap.get_for_row\<close>\<close>

text \<open>
  Claim C2 asks that \<^verbatim>\<open>get_for_row\<close> of each of the five classes produces or loads a
  mapping, \<^verbatim>\<open>SlrMap\<close> through its \<^verbatim>\<open>gen_mapping\<close>. \<^verbatim>\<open>SlrMap.__init__\<close> assigns
  \<^verbatim>\<open>syn_kwargs\<close>, \<^verbatim>\<open>use_prealign\<close> and \<^verbatim>\<open>extension\<close>, and \<^verbatim>\<open>SlrMap.gen_mapping\<close> reads
  \<^verbatim>\<open>self.slr_kwargs\<close>: whenever the mapping file is absent and the two images are
  obtained, \<^verbatim>\<open>get_for_row\<close> of an \<^verbatim>\<open>SlrMap\<close> enters \<^verbatim>\<open>gen_mapping\<close> and raises
  \<^verbatim>\<open>AttributeError\<close>, with no registration called and no file written.
\<close>

theorem SlrMap_get_for_row_raises_AttributeError:
  assumes "files s (get_fname ext afq r ''_mapping_from-DWI_to_MNI_xfm'' @ ''.npy'') = None"
    and "reg_img ext afq (reg_template afq) False r = Inr t"
    and "reg_img ext afq (reg_subject afq) True r = Inr u"
  shows "fst (get_for_row ext (SlrMap_init syn_kwargs) afq r s) = Inl (AttributeError ''slr_kwargs'')
     \<and> new_events s (snd (get_for_row ext (SlrMap_init syn_kwargs) afq r s)) =
          [Call_gen_mapping SlrMap]
     \<and> files (snd (get_for_row ext (SlrMap_init syn_kwargs) afq r s)) = files s"
  using assms
  by (simp add: run_defs SlrMap_init_def new_events_def split: prod.split)

theorem SlrMap_get_for_row_raises_AttributeError_witness:
  "fst (get_for_row example_ext (SlrMap_init []) example_afq example_row example_state) =
     Inl (AttributeError ''slr_kwargs'')"
proof -
  have 1: "files example_state
      (get_fname example_ext example_afq example_row ''_mapping_from-DWI_to_MNI_xfm'' @ ''.npy'')
        = None"
    by (simp add: example_defs)
  have 2: "reg_img example_ext example_afq (reg_template example_afq) False example_row =
      Inr (example_template, [])"
    by (simp add: example_defs)
  have 3: "reg_img example_ext example_afq (reg_subject example_afq) True example_row =
      Inr (example_template, [])"
    by (simp add: example_defs)
  show ?thesis
    using SlrMap_get_for_row_raises_AttributeError [OF 1 2 3, of "[]"]
    by simp
qed

section \<open>The mapping interface\<close>

lemma FnirtMap_get_for_row_returns:
  assumes "FnirtMap_get_for_row ext self afq r fs = Inr m"
  shows "\<exists>w. m = FnirtMapping \<lparr>ref_affine = affine (reg_template_img afq), warp = w\<rparr>"
  using assms
  by (auto simp: FnirtMap_get_for_row_def Let_def split: sum.splits prod.splits)

lemma ItkMap_get_for_row_returns:
  assumes "ItkMap_get_for_row ext self afq r fs = Inr m"
  shows "\<exists>disp pre. read_mapping ext fs (DispImage disp) (dwi_file r) (reg_template_img afq)
           (Some pre) = Inr m"
  using assms
  by (auto simp: ItkMap_get_for_row_def Let_def split: sum.splits if_splits)

lemma own_classes_expose:
  "exposes ext (FnirtMapping f) ''transform''"
  "exposes ext (FnirtMapping f) ''transform_inverse''"
  "exposes ext (AffineMapping a) ''transform''"
  "exposes ext (AffineMapping a) ''transform_inverse''"
  by (simp_all add: exposes_def ConformedFnirtMapping_methods_def
      ConformedAffineMapping_methods_def)

text \<open>
  Claim C1. Every mapping object that \<^verbatim>\<open>get_for_row\<close> of one of the five configuration
  classes returns exposes \<^verbatim>\<open>transform\<close> and \<^verbatim>\<open>transform_inverse\<close>: \<^verbatim>\<open>FnirtMap\<close> returns a
  \<^verbatim>\<open>ConformedFnirtMapping\<close>, which defines both, and the other four return what
  \<^verbatim>\<open>read_mapping\<close> returns, which exposes both by the contract of the spec's data model.
  The two mapping classes of this module, \<^verbatim>\<open>ConformedFnirtMapping\<close> and
  \<^verbatim>\<open>ConformedAffineMapping\<close>, define both methods.
\<close>

theorem get_for_row_returns_mapping_interface:
  assumes "read_mapping_contract ext"
  shows "(\<forall>m s'. get_for_row_of ext d afq r s = (Inr m, s') \<longrightarrow>
            exposes ext m ''transform'' \<and> exposes ext m ''transform_inverse'')
     \<and> exposes ext (FnirtMapping f) ''transform''
     \<and> exposes ext (FnirtMapping f) ''transform_inverse''
     \<and> exposes ext (AffineMapping a) ''transform''
     \<and> exposes ext (AffineMapping a) ''transform_inverse''"
proof -
  have c: "exposes ext m ''transform'' \<and> exposes ext m ''transform_inverse''"
    if "read_mapping ext fs disp dwi templ pre = Inr m" for fs disp dwi templ pre m
    using assms that unfolding read_mapping_contract_def by blast
  have "exposes ext m ''transform'' \<and> exposes ext m ''transform_inverse''"
    if run: "get_for_row_of ext d afq r s = (Inr m, s')" for m s'
  proof (cases d)
    case (Fnirt x)
    with run have "FnirtMap_get_for_row ext x afq r (files s) = Inr m"
      by (auto simp: get_for_row_of_def)
    from FnirtMap_get_for_row_returns [OF this] show ?thesis
      by (auto simp: own_classes_expose)
  next
    case (Itk x)
    with run have "ItkMap_get_for_row ext x afq r (files s) = Inr m"
      by (auto simp: get_for_row_of_def)
    from ItkMap_get_for_row_returns [OF this] c show ?thesis
      by blast
  next
    case (Generated x)
    with run have "get_for_row ext x afq r s = (Inr m, s')"
      by (simp add: get_for_row_of_def)
    then show ?thesis
      by (rule get_for_row_returns) (use c in blast)
  qed
  then show ?thesis
    by (simp add: own_classes_expose)
qed

theorem get_for_row_returns_mapping_interface_witness:
  "exposes example_ext
     (ExternalMapping
       \<lparr>dm_methods = example_methods,
        dm_field = \<lparr>shape = [1, 1, 2, 3, 2], flat = [5, 0, 0, 0, 0, 0, 0, 0, 7, 0, 0, 0]\<rparr>,
        codomain_world2grid = example_identity\<rparr>) ''transform''
   \<and> exposes example_ext
     (ExternalMapping
       \<lparr>dm_methods = example_methods,
        dm_field = \<lparr>shape = [1, 1, 2, 3, 2], flat = [5, 0, 0, 0, 0, 0, 0, 0, 7, 0, 0, 0]\<rparr>,
        codomain_world2grid = example_identity\<rparr>) ''transform_inverse''
   \<and> get_for_row_of example_ext (Itk example_itk_found) example_afq example_row
        (example_state\<lparr>files := example_warp_fs 2\<rparr>) =
      (Inr (ExternalMapping
         \<lparr>dm_methods = example_methods,
          dm_field = \<lparr>shape = [1, 1, 2, 3, 2], flat = [5, 0, 0, 0, 0, 0, 0, 0, 7, 0, 0, 0]\<rparr>,
          codomain_world2grid = example_identity\<rparr>),
       example_state\<lparr>files := example_warp_fs 2\<rparr>)"
proof -
  have run: "get_for_row_of example_ext (Itk example_itk_found) example_afq example_row
        (example_state\<lparr>files := example_warp_fs 2\<rparr>) =
      (Inr (ExternalMapping
         \<lparr>dm_methods = example_methods,
          dm_field = \<lparr>shape = [1, 1, 2, 3, 2], flat = [5, 0, 0, 0, 0, 0, 0, 0, 7, 0, 0, 0]\<rparr>,
          codomain_world2grid = example_identity\<rparr>),
       example_state\<lparr>files := example_warp_fs 2\<rparr>)"
    by (simp add: get_for_row_of_def example_itk_run)
  show ?thesis
    using get_for_row_returns_mapping_interface [OF example_read_mapping_contract,
        of "Itk example_itk_found" example_afq example_row
        "example_state\<lparr>files := example_warp_fs 2\<rparr>"] run
    by simp
qed

end
